theory Spec2Isabelle
  imports Complex_Main
begin

text \<open>
  A model of the project index of the plugin: the class \<^verbatim>\<open>ProjectCache\<close> with its scan
  \<^verbatim>\<open>reindex()\<close>, its lookup \<^verbatim>\<open>getTask()\<close> and its mutation \<^verbatim>\<open>updateTask()\<close>. The vault, the
  host's metadata of a note and the settings are the inputs; the index is explicit state.
  The regular expressions of the source are terms of a small pattern language with the
  backtracking matcher of ECMAScript, so that each pattern of the model can be read next
  to the pattern of the source.
\<close>

section \<open>Strings\<close>

text \<open>
  The program is TypeScript: a string is a sequence of UTF-16 code units. A code unit is
  a natural number here (the values below \<open>65536\<close> are the code units), so that the
  no-break space \<open>U+00A0\<close> and the emoji of the date tokens (surrogate pairs) are
  what they are in the source. \<open>str\<close> embeds an ASCII literal.
\<close>

type_synonym ustring = "nat list"

definition str :: "string \<Rightarrow> ustring" where
  "str s = map of_char s"

text \<open>The white space of \<^verbatim>\<open>\s\<close> and of \<^verbatim>\<open>trim()\<close>: ECMAScript's WhiteSpace and
  LineTerminator code points.\<close>

definition is_space :: "nat \<Rightarrow> bool" where
  "is_space c \<longleftrightarrow>
     (9 \<le> c \<and> c \<le> 13) \<or> c = 32 \<or> c = 160 \<or> c = 5760 \<or> (8192 \<le> c \<and> c \<le> 8202) \<or>
     c = 8232 \<or> c = 8233 \<or> c = 8239 \<or> c = 8287 \<or> c = 12288 \<or> c = 65279"

definition is_digit :: "nat \<Rightarrow> bool" where
  "is_digit c \<longleftrightarrow> 48 \<le> c \<and> c \<le> 57"

definition is_upper :: "nat \<Rightarrow> bool" where
  "is_upper c \<longleftrightarrow> 65 \<le> c \<and> c \<le> 90"

definition is_lower :: "nat \<Rightarrow> bool" where
  "is_lower c \<longleftrightarrow> 97 \<le> c \<and> c \<le> 122"

text \<open>\<^verbatim>\<open>\w\<close> is \<^verbatim>\<open>[A-Za-z0-9_]\<close>.\<close>

definition is_word :: "nat \<Rightarrow> bool" where
  "is_word c \<longleftrightarrow> is_upper c \<or> is_lower c \<or> is_digit c \<or> c = 95"

text \<open>\<^verbatim>\<open>[A-Za-z0-9_-]\<close>, the class of keys and ids.\<close>

definition is_idch :: "nat \<Rightarrow> bool" where
  "is_idch c \<longleftrightarrow> is_word c \<or> c = 45"

text \<open>\<^verbatim>\<open>.\<close> without the \<^verbatim>\<open>s\<close> flag: anything but a line terminator.\<close>

definition is_dot :: "nat \<Rightarrow> bool" where
  "is_dot c \<longleftrightarrow> c \<noteq> 10 \<and> c \<noteq> 13 \<and> c \<noteq> 8232 \<and> c \<noteq> 8233"

text \<open>
  \<^verbatim>\<open>toLowerCase()\<close>. The model folds the letters \<open>A\<close> to \<open>Z\<close> and leaves every other
  code unit as it is; the source also folds the letters beyond ASCII.
\<close>

definition lower_ch :: "nat \<Rightarrow> nat" where
  "lower_ch c = (if is_upper c then c + 32 else c)"

definition toLowerCase :: "ustring \<Rightarrow> ustring" where
  "toLowerCase s = map lower_ch s"

definition trim :: "ustring \<Rightarrow> ustring" where
  "trim s = rev (dropWhile is_space (rev (dropWhile is_space s)))"

text \<open>\<^verbatim>\<open>s.split(sep)\<close> for a separator of one code unit: always at least one piece.\<close>

fun split_on :: "nat \<Rightarrow> ustring \<Rightarrow> ustring list" where
  "split_on sep [] = [[]]"
| "split_on sep (c # s) =
     (if c = sep then [] # split_on sep s
      else (case split_on sep s of
              [] \<Rightarrow> [[c]]
            | p # ps \<Rightarrow> (c # p) # ps))"

text \<open>\<^verbatim>\<open>xs.join(sep)\<close>.\<close>

fun join :: "nat \<Rightarrow> ustring list \<Rightarrow> ustring" where
  "join sep [] = []"
| "join sep [x] = x"
| "join sep (x # y # ys) = x @ sep # join sep (y # ys)"

text \<open>The decimal numeral of a number, as a template literal prints a line index.\<close>

fun decimal :: "nat \<Rightarrow> ustring" where
  "decimal n = (if n < 10 then [48 + n] else decimal (n div 10) @ [48 + n mod 10])"

declare decimal.simps [simp del]

text \<open>\<^verbatim>\<open>a < b\<close> on strings: lexicographic on code units.\<close>

fun str_less :: "ustring \<Rightarrow> ustring \<Rightarrow> bool" where
  "str_less [] [] = False"
| "str_less [] (b # bs) = True"
| "str_less (a # as) [] = False"
| "str_less (a # as) (b # bs) = (a < b \<or> (a = b \<and> str_less as bs))"

text \<open>\<^verbatim>\<open>s.endsWith(t)\<close> and \<^verbatim>\<open>s.includes(c)\<close>.\<close>

definition endsWith :: "ustring \<Rightarrow> ustring \<Rightarrow> bool" where
  "endsWith s t \<longleftrightarrow> length t \<le> length s \<and> drop (length s - length t) s = t"

definition includes_ch :: "ustring \<Rightarrow> nat \<Rightarrow> bool" where
  "includes_ch s c \<longleftrightarrow> c \<in> set s"

section \<open>Regular expressions\<close>

text \<open>
  The source parses with regular expressions. \<open>re\<close> is the fragment it uses: one code
  unit of a class, a class repeated (greedy or lazy), sequence, alternative (the left
  one first), a numbered capture group, and the assertions \<^verbatim>\<open>^\<close>, \<^verbatim>\<open>$\<close> (no \<^verbatim>\<open>m\<close>
  flag anywhere: start and end of the whole input) and \<^verbatim>\<open>\b\<close>.
\<close>

datatype re =
    Atom "nat \<Rightarrow> bool"
  | Star "nat \<Rightarrow> bool"
  | LazyStar "nat \<Rightarrow> bool"
  | Seq re re
  | Alt re re
  | Grp nat re
  | Bol
  | Eol
  | Wordb
  | Eps

text \<open>
  A matcher state: the code unit before the position (\<open>None\<close> at index 0), the input
  from the position on, and the captures made so far, the latest first.
\<close>

type_synonym mstate = "nat option \<times> ustring \<times> (nat \<times> ustring) list"

text \<open>Backtracking as the ECMAScript matcher does it: \<open>k\<close> is the rest of the
  pattern, and the first alternative whose continuation succeeds is the match.\<close>

fun star_greedy ::
  "(nat \<Rightarrow> bool) \<Rightarrow> (mstate \<Rightarrow> 'a option) \<Rightarrow> nat option \<Rightarrow> (nat \<times> ustring) list \<Rightarrow> ustring \<Rightarrow> 'a option"
where
  "star_greedy p k prev caps [] = k (prev, [], caps)"
| "star_greedy p k prev caps (c # s) =
     (if p c then
        (case star_greedy p k (Some c) caps s of
           Some r \<Rightarrow> Some r
         | None \<Rightarrow> k (prev, c # s, caps))
      else k (prev, c # s, caps))"

fun star_lazy ::
  "(nat \<Rightarrow> bool) \<Rightarrow> (mstate \<Rightarrow> 'a option) \<Rightarrow> nat option \<Rightarrow> (nat \<times> ustring) list \<Rightarrow> ustring \<Rightarrow> 'a option"
where
  "star_lazy p k prev caps [] = k (prev, [], caps)"
| "star_lazy p k prev caps (c # s) =
     (case k (prev, c # s, caps) of
        Some r \<Rightarrow> Some r
      | None \<Rightarrow> (if p c then star_lazy p k (Some c) caps s else None))"

definition word_before :: "nat option \<Rightarrow> bool" where
  "word_before prev = (case prev of None \<Rightarrow> False | Some c \<Rightarrow> is_word c)"

definition word_after :: "ustring \<Rightarrow> bool" where
  "word_after s = (case s of [] \<Rightarrow> False | c # _ \<Rightarrow> is_word c)"

primrec rmatch :: "re \<Rightarrow> (mstate \<Rightarrow> 'a option) \<Rightarrow> mstate \<Rightarrow> 'a option" where
  "rmatch (Atom p) k = (\<lambda>(prev, s, caps).
     (case s of [] \<Rightarrow> None | c # t \<Rightarrow> if p c then k (Some c, t, caps) else None))"
| "rmatch (Star p) k = (\<lambda>(prev, s, caps). star_greedy p k prev caps s)"
| "rmatch (LazyStar p) k = (\<lambda>(prev, s, caps). star_lazy p k prev caps s)"
| "rmatch (Seq a b) k = rmatch a (rmatch b k)"
| "rmatch (Alt a b) k = (\<lambda>st.
     (case rmatch a k st of Some r \<Rightarrow> Some r | None \<Rightarrow> rmatch b k st))"
| "rmatch (Grp n a) k = (\<lambda>(prev, s, caps).
     rmatch a (\<lambda>(prev', s', caps'). k (prev', s', (n, take (length s - length s') s) # caps'))
       (prev, s, caps))"
| "rmatch Bol k = (\<lambda>(prev, s, caps). if prev = None then k (prev, s, caps) else None)"
| "rmatch Eol k = (\<lambda>(prev, s, caps). if s = [] then k (prev, s, caps) else None)"
| "rmatch Wordb k = (\<lambda>(prev, s, caps).
     if word_before prev \<noteq> word_after s then k (prev, s, caps) else None)"
| "rmatch Eps k = k"

text \<open>The pattern as the source writes it, piece after piece.\<close>

definition seq :: "re list \<Rightarrow> re" where
  "seq rs = foldr Seq rs Eps"

definition lit :: "nat \<Rightarrow> re" where
  "lit c = Atom (\<lambda>x. x = c)"

definition Plus :: "(nat \<Rightarrow> bool) \<Rightarrow> re" where
  "Plus p = Seq (Atom p) (Star p)"

definition Opt :: "re \<Rightarrow> re" where
  "Opt r = Alt r Eps"

text \<open>One attempt at the position of the state.\<close>

definition match_here :: "re \<Rightarrow> nat option \<Rightarrow> ustring \<Rightarrow> mstate option" where
  "match_here r prev s = rmatch r Some (prev, s, [])"

text \<open>
  \<^verbatim>\<open>exec\<close>: the leftmost position where the pattern matches. The result is the input
  skipped before the match, the matched text, and the state after it.
\<close>

fun search :: "re \<Rightarrow> nat option \<Rightarrow> ustring \<Rightarrow> (ustring \<times> ustring \<times> mstate) option" where
  "search r prev [] =
     (case match_here r prev [] of
        Some st \<Rightarrow> Some ([], [], st)
      | None \<Rightarrow> None)"
| "search r prev (c # s) =
     (case match_here r prev (c # s) of
        Some (prev', s', caps) \<Rightarrow>
          Some ([], take (length (c # s) - length s') (c # s), (prev', s', caps))
      | None \<Rightarrow>
          (case search r (Some c) s of
             Some (pre, m, st) \<Rightarrow> Some (c # pre, m, st)
           | None \<Rightarrow> None))"

text \<open>\<^verbatim>\<open>re.test(s)\<close> and the text of capture group \<open>n\<close> of \<^verbatim>\<open>s.match(re)\<close>.\<close>

definition test :: "re \<Rightarrow> ustring \<Rightarrow> bool" where
  "test r s \<longleftrightarrow> search r None s \<noteq> None"

definition capture :: "re \<Rightarrow> nat \<Rightarrow> ustring \<Rightarrow> ustring option" where
  "capture r n s =
     (case search r None s of
        None \<Rightarrow> None
      | Some (pre, m, (prev, rest, caps)) \<Rightarrow> map_of caps n)"

text \<open>\<^verbatim>\<open>s.replace(re, rep)\<close> without the \<^verbatim>\<open>g\<close> flag: the first match only. The
  replacement text is taken as it is (the source's replacement texts hold no \<^verbatim>\<open>$\<close>
  pattern unless a caller passes one in a value).\<close>

definition replace_first :: "re \<Rightarrow> ustring \<Rightarrow> ustring \<Rightarrow> ustring" where
  "replace_first r rep s =
     (case search r None s of
        None \<Rightarrow> s
      | Some (pre, m, (prev, rest, caps)) \<Rightarrow> pre @ rep @ rest)"

text \<open>
  The matches of a \<^verbatim>\<open>g\<close> pattern, left to right, each with its text and its
  captures: after a match the scan goes on where it ended, one code unit further when the
  match was empty.
\<close>

function match_all :: "re \<Rightarrow> nat option \<Rightarrow> ustring \<Rightarrow> (ustring \<times> (nat \<times> ustring) list) list" where
  "match_all r prev [] =
     (case match_here r prev [] of
        Some (prev', s', caps) \<Rightarrow> [([], caps)]
      | None \<Rightarrow> [])"
| "match_all r prev (c # s) =
     (case match_here r prev (c # s) of
        None \<Rightarrow> match_all r (Some c) s
      | Some (prev', s', caps) \<Rightarrow>
          (if length s' < length (c # s)
           then (take (length (c # s) - length s') (c # s), caps) # match_all r prev' s'
           else ([], caps) # match_all r (Some c) s))"
  by pat_completeness auto
termination
  by (relation "measure (\<lambda>(r, prev, s). length s)") auto

text \<open>\<^verbatim>\<open>s.replace(re, rep)\<close> with the \<^verbatim>\<open>g\<close> flag.\<close>

function replace_all :: "re \<Rightarrow> ustring \<Rightarrow> nat option \<Rightarrow> ustring \<Rightarrow> ustring" where
  "replace_all r rep prev [] =
     (case match_here r prev [] of Some st \<Rightarrow> rep | None \<Rightarrow> [])"
| "replace_all r rep prev (c # s) =
     (case match_here r prev (c # s) of
        None \<Rightarrow> c # replace_all r rep (Some c) s
      | Some (prev', s', caps) \<Rightarrow>
          (if length s' < length (c # s)
           then rep @ replace_all r rep prev' s'
           else rep @ c # replace_all r rep (Some c) s))"
  by pat_completeness auto
termination
  by (relation "measure (\<lambda>(r, rep, prev, s). length s)") auto

text \<open>\<^verbatim>\<open>s.split(/[, ]+/)\<close>: the pieces between the maximal runs of separators.\<close>

function split_runs :: "(nat \<Rightarrow> bool) \<Rightarrow> ustring \<Rightarrow> ustring list" where
  "split_runs p [] = [[]]"
| "split_runs p (c # s) =
     (if p c then [] # split_runs p (dropWhile p s)
      else (case split_runs p s of
              [] \<Rightarrow> [[c]]
            | x # xs \<Rightarrow> (c # x) # xs))"
  by pat_completeness auto
termination
  by (relation "measure (\<lambda>(p, s). length s)")
     (auto simp: length_dropWhile_le less_Suc_eq_le)

section \<open>The data model of the index\<close>

datatype status = NotStarted | InProgress | OnHold | Done

text \<open>
  \<^verbatim>\<open>Record<string, string>\<close>: the keys in the order they were first written; a
  second write to a key replaces its value where it stands. A read is \<open>pget\<close>.
\<close>

type_synonym props = "(ustring \<times> ustring) list"

fun pset :: "'k \<Rightarrow> 'v \<Rightarrow> ('k \<times> 'v) list \<Rightarrow> ('k \<times> 'v) list" where
  "pset k v [] = [(k, v)]"
| "pset k v ((k', v') # ps) = (if k' = k then (k, v) # ps else (k', v') # pset k v ps)"

definition pget :: "('k \<times> 'v) list \<Rightarrow> 'k \<Rightarrow> 'v option" where
  "pget ps k = map_of ps k"

text \<open>\<^verbatim>\<open>TaskItem\<close>; the \<^verbatim>\<open>TFile\<close> handle of a note is its vault path.\<close>

record TaskItem =
  t_id :: ustring
  t_file :: ustring
  t_line :: nat
  t_text :: ustring
  t_props :: props
  t_checked :: bool
  t_depends :: "ustring list"
  t_status :: status

record Milestone =
  m_id :: ustring
  m_title :: ustring
  m_date :: ustring
  m_desc :: ustring
  m_file :: ustring

text \<open>\<^verbatim>\<open>percentComplete\<close> is the quotient of two counts; the model keeps the exact
  quotient where the source keeps its double.\<close>

record ProjectEntry =
  pe_file :: ustring
  pe_tasks :: "TaskItem list"
  percentComplete :: rat
  nextDue :: "ustring option"

text \<open>
  The index: the two \<^verbatim>\<open>Map\<close>s in insertion order, the milestone list, and the number
  of times the listeners were notified.
\<close>

record ProjectCache =
  projects :: "(ustring \<times> ProjectEntry) list"
  tasks :: "(ustring \<times> TaskItem) list"
  milestones :: "Milestone list"
  notifications :: nat

subsection \<open>What the host hands over\<close>

text \<open>
  A list item of the host's metadata cache, read as the source reads it (\<^verbatim>\<open>item: any\<close>):
  \<open>li_task\<close> is \<open>None\<close> when \<^verbatim>\<open>item.task\<close> is absent and \<open>Some c\<close> when it is there,
  \<open>c\<close> the truth value of \<^verbatim>\<open>item.task.checked\<close>; \<open>li_end\<close> is \<^verbatim>\<open>item.position.end?.line\<close>;
  \<open>li_attributes\<close> the keys of \<^verbatim>\<open>item.attributes\<close> with \<^verbatim>\<open>String(attr.value)\<close>.
\<close>

record ListItem =
  li_task :: "bool option"
  li_start :: nat
  li_end :: "nat option"
  li_attributes :: "(ustring \<times> ustring) list option"
  li_id :: "ustring option"

text \<open>\<^verbatim>\<open>CachedMetadata\<close>: the front matter, each key with the truthiness of its value,
  and the list items.\<close>

record FileMeta =
  frontmatter :: "(ustring \<times> bool) list option"
  listItems :: "ListItem list option"

record VFile =
  vf_path :: ustring
  vf_text :: ustring
  vf_meta :: "FileMeta option"

record PmSettings =
  projectFlagProperty :: ustring
  statusProperty :: ustring
  dueProperty :: ustring

text \<open>The vault: the markdown files in the order \<^verbatim>\<open>getMarkdownFiles()\<close> lists them,
  and the plugin's settings.\<close>

record Vault =
  files :: "VFile list"
  settings :: PmSettings

section \<open>The patterns of the scanner\<close>

definition nbsp_to_space :: "ustring \<Rightarrow> ustring" where
  \<comment> \<open>every no-break space (\<open>U+00A0\<close>) becomes a space\<close>
  "nbsp_to_space s = replace_all (lit 160) [32] None s"

text \<open>\<^verbatim>\<open>/^\s*\|.*-\s*\[[ xX/\-]\]/\<close>, the table-task test of the list-item walk.\<close>

definition re_tableTask :: re where
  "re_tableTask = seq [Bol, Star is_space, lit 124, Star is_dot, lit 45, Star is_space, lit 91,
     Atom (\<lambda>c. c = 32 \<or> c = 120 \<or> c = 88 \<or> c = 47 \<or> c = 45), lit 93]"

text \<open>\<^verbatim>\<open>/^\s*\|.*-\s*\[[ xX/\\-]\]/\<close>, the test of the line walk: its class also holds the
  backslash.\<close>

definition re_tableRow :: re where
  "re_tableRow = seq [Bol, Star is_space, lit 124, Star is_dot, lit 45, Star is_space, lit 91,
     Atom (\<lambda>c. c = 32 \<or> c = 120 \<or> c = 88 \<or> c = 47 \<or> c = 92 \<or> c = 45), lit 93]"

text \<open>\<^verbatim>\<open>/([A-Za-z0-9_-]+)::\s*([^|\n]+)/g\<close>\<close>

definition re_inline :: re where
  "re_inline = seq [Grp 1 (Plus is_idch), lit 58, lit 58, Star is_space,
     Grp 2 (Plus (\<lambda>c. c \<noteq> 124 \<and> c \<noteq> 10))]"

text \<open>\<^verbatim>\<open>/^[Ee]-\d+$/\<close>, \<^verbatim>\<open>/^[Ss]-\d+$/\<close> and \<^verbatim>\<open>/^\d{4}-\d{2}-\d{2}$/\<close>\<close>

definition re_epic :: re where
  "re_epic = seq [Bol, Atom (\<lambda>c. c = 69 \<or> c = 101), lit 45, Plus is_digit, Eol]"

definition re_story :: re where
  "re_story = seq [Bol, Atom (\<lambda>c. c = 83 \<or> c = 115), lit 45, Plus is_digit, Eol]"

definition re_isoDate :: "re list" where
  "re_isoDate = [Atom is_digit, Atom is_digit, Atom is_digit, Atom is_digit, lit 45,
     Atom is_digit, Atom is_digit, lit 45, Atom is_digit, Atom is_digit]"

definition dateRe :: re where
  "dateRe = seq ([Bol] @ re_isoDate @ [Eol])"

text \<open>
  \<^verbatim>\<open>/([icons])(VS16)?[(NBSP) \t\r\n]*([0-9]{4}-[0-9]{2}-[0-9]{2})/gu\<close> with the five glyphs
  \<open>U+1F51C\<close>, \<open>U+23F3\<close>, \<open>U+1F4C5\<close>, \<open>U+2705\<close> and \<open>U+1F6EB\<close> in the class. The \<^verbatim>\<open>u\<close>
  flag makes the source match by code point; a glyph beyond the basic plane is its
  surrogate pair here, and no glyph begins with a low surrogate, so that the matches are
  the same.
\<close>

definition icon_soon :: ustring where "icon_soon = [0xD83D, 0xDD1C]"
definition icon_hourglass :: ustring where "icon_hourglass = [0x23F3]"
definition icon_calendar :: ustring where "icon_calendar = [0xD83D, 0xDCC5]"
definition icon_check :: ustring where "icon_check = [0x2705]"
definition icon_departure :: ustring where "icon_departure = [0xD83D, 0xDEEB]"

definition re_emoji :: re where
  "re_emoji = seq [
     Grp 1 (Alt (seq (map lit icon_soon)) (Alt (seq (map lit icon_hourglass))
           (Alt (seq (map lit icon_calendar)) (Alt (seq (map lit icon_check))
           (seq (map lit icon_departure)))))),
     Opt (lit 0xFE0F),
     Star (\<lambda>c. c = 160 \<or> c = 32 \<or> c = 9 \<or> c = 13 \<or> c = 10),
     Grp 2 (seq re_isoDate)]"

text \<open>The glyph tests \<^verbatim>\<open>/\-\s*\[[xX]\]/\<close>, \<^verbatim>\<open>/\-\s*\[\/\]/\<close> and \<^verbatim>\<open>/\-\s*\[\-\]/\<close>\<close>

definition re_done :: re where
  "re_done = seq [lit 45, Star is_space, lit 91, Atom (\<lambda>c. c = 120 \<or> c = 88), lit 93]"

definition re_inProgress :: re where
  "re_inProgress = seq [lit 45, Star is_space, lit 91, lit 47, lit 93]"

definition re_onHold :: re where
  "re_onHold = seq [lit 45, Star is_space, lit 91, lit 45, lit 93]"

text \<open>The strippers of the list-item walk: \<^verbatim>\<open>/^\s*\|?\s*/g\<close>,
  \<^verbatim>\<open>/^\s*-\s*\[[\sxX/\-]\]\s*/\<close> and \<^verbatim>\<open>/(\w+)::\s*[^\s]+/g\<close>\<close>

definition re_leadPipe :: re where
  "re_leadPipe = seq [Bol, Star is_space, Opt (lit 124), Star is_space]"

definition re_leadBox :: re where
  "re_leadBox = seq [Bol, Star is_space, lit 45, Star is_space, lit 91,
     Atom (\<lambda>c. is_space c \<or> c = 120 \<or> c = 88 \<or> c = 47 \<or> c = 45), lit 93, Star is_space]"

definition re_propWord :: re where
  "re_propWord = seq [Grp 1 (Plus is_word), lit 58, lit 58, Star is_space,
     Plus (\<lambda>c. \<not> is_space c)]"

text \<open>The strippers of the line walk: \<^verbatim>\<open>/^\s*\|.*?-\s*\[[\sxX\/\-]\]\s*/\<close>, \<^verbatim>\<open>/\|.*/\<close>
  and \<^verbatim>\<open>/(\w+)::\s*[^|]+/g\<close>\<close>

definition re_rowToBox :: re where
  "re_rowToBox = seq [Bol, Star is_space, lit 124, LazyStar is_dot, lit 45, Star is_space, lit 91,
     Atom (\<lambda>c. is_space c \<or> c = 120 \<or> c = 88 \<or> c = 47 \<or> c = 45), lit 93, Star is_space]"

definition re_restCells :: re where
  "re_restCells = seq [lit 124, Star is_dot]"

definition re_propCell :: re where
  "re_propCell = seq [Grp 1 (Plus is_word), lit 58, lit 58, Star is_space,
     Plus (\<lambda>c. c \<noteq> 124)]"

text \<open>The id patterns of the line walk: \<^verbatim>\<open>/\^([A-Za-z0-9_-]+)\s*$/\<close> and
  \<^verbatim>\<open>/^\s*\|\s*([A-Za-z0-9_-]+)\s*\|/\<close>\<close>

definition re_caretId :: re where
  "re_caretId = seq [lit 94, Grp 1 (Plus is_idch), Star is_space, Eol]"

definition re_idCell :: re where
  "re_idCell = seq [Bol, Star is_space, lit 124, Star is_space, Grp 1 (Plus is_idch),
     Star is_space, lit 124]"

text \<open>The milestone patterns: \<^verbatim>\<open>/^\s*\|/\<close>, \<^verbatim>\<open>/\bDate\b/i\<close> and \<^verbatim>\<open>/\bTitle\b/i\<close>. Under
  the \<^verbatim>\<open>i\<close> flag (and no \<^verbatim>\<open>u\<close> flag) an ASCII letter matches its two cases only.\<close>

definition ci :: "nat \<Rightarrow> re" where
  "ci c = Atom (\<lambda>x. lower_ch x = lower_ch c)"

definition re_pipeStart :: re where
  "re_pipeStart = seq [Bol, Star is_space, lit 124]"

definition re_wordDate :: re where
  "re_wordDate = seq [Wordb, ci 68, ci 97, ci 116, ci 101, Wordb]"

definition re_wordTitle :: re where
  "re_wordTitle = seq [Wordb, ci 84, ci 105, ci 116, ci 108, ci 101, Wordb]"

text \<open>\<^verbatim>\<open>/^\^/\<close> and the separators \<^verbatim>\<open>/[, ]+/\<close> of a dependency list.\<close>

definition re_leadCaret :: re where
  "re_leadCaret = seq [Bol, lit 94]"

definition is_depSep :: "nat \<Rightarrow> bool" where
  "is_depSep c \<longleftrightarrow> c = 44 \<or> c = 32"

section \<open>The scanner\<close>

subsection \<open>Pieces that the two walks share\<close>

text \<open>\<^verbatim>\<open>fileLines[i] ?? ""\<close>\<close>

definition line_at :: "ustring list \<Rightarrow> nat \<Rightarrow> ustring" where
  "line_at ls i = (if i < length ls then ls ! i else [])"

text \<open>The \<^verbatim>\<open>key:: value\<close> pass over one line: every match writes its lower-cased key
  with the trimmed value, a later match over an earlier one.\<close>

definition inline_step :: "ustring \<times> (nat \<times> ustring) list \<Rightarrow> props \<Rightarrow> props" where
  "inline_step m ps =
     (case (map_of (snd m) 1, map_of (snd m) 2) of
        (Some k, Some v) \<Rightarrow> pset (toLowerCase k) (trim v) ps
      | _ \<Rightarrow> ps)"

definition inline_props :: "ustring \<Rightarrow> props \<Rightarrow> props" where
  "inline_props row ps = fold inline_step (match_all re_inline None row) ps"

text \<open>
  The cells of a pipe row: split at the pipes, each piece with its no-break spaces
  replaced and trimmed, then an empty first cell dropped and after that an empty last
  cell.
\<close>

definition shift_empty :: "ustring list \<Rightarrow> ustring list" where
  "shift_empty cells = (case cells of [] \<Rightarrow> [] | c # cs \<Rightarrow> if c = [] then cs else c # cs)"

definition pop_empty :: "ustring list \<Rightarrow> ustring list" where
  "pop_empty cells = (if cells \<noteq> [] \<and> last cells = [] then butlast cells else cells)"

definition row_cells :: "ustring \<Rightarrow> ustring list" where
  "row_cells row = pop_empty (shift_empty (map (\<lambda>c. trim (nbsp_to_space c)) (split_on 124 row)))"

text \<open>The epic and the story reference: the second cell, when it has that shape.\<close>

definition epic_cell :: "ustring list \<Rightarrow> props \<Rightarrow> props" where
  "epic_cell cells ps =
     (if 2 \<le> length cells \<and> cells ! 1 \<noteq> [] \<and> test re_epic (trim (cells ! 1))
      then pset (str ''epic'') (trim (cells ! 1)) ps else ps)"

definition story_cell :: "ustring list \<Rightarrow> props \<Rightarrow> props" where
  "story_cell cells ps =
     (if 2 \<le> length cells \<and> cells ! 1 \<noteq> [] \<and> test re_story (trim (cells ! 1))
      then pset (str ''story'') (trim (cells ! 1)) ps else ps)"

text \<open>The priority: the first cell, from the left, whose lower-cased text is a word of
  the vocabulary, stored as the cell has it.\<close>

definition priority_words :: "ustring list" where
  "priority_words = map str [''critical'', ''crit'', ''c'', ''p0'', ''highest'', ''high'', ''h'',
     ''1'', ''p1'', ''medium'', ''med'', ''m'', ''2'', ''p2'', ''low'', ''l'', ''3'', ''p3'']"

definition priority_cell :: "ustring list \<Rightarrow> props \<Rightarrow> props" where
  "priority_cell cells ps =
     (case find (\<lambda>c. trim (toLowerCase c) \<in> set priority_words) cells of
        None \<Rightarrow> ps
      | Some c \<Rightarrow> pset (str ''priority'') (trim c) ps)"

text \<open>The description: from the last cell down to the cell of index 2, the first that is
  neither empty nor a date.\<close>

definition description_cand :: "ustring list \<Rightarrow> ustring option" where
  "description_cand cells = find (\<lambda>cand. cand \<noteq> [] \<and> \<not> test dateRe cand) (rev (drop 2 cells))"

definition description_cell :: "ustring list \<Rightarrow> props \<Rightarrow> props" where
  "description_cell cells ps =
     (case description_cand cells of
        None \<Rightarrow> ps
      | Some cand \<Rightarrow> pset (str ''description'') cand ps)"

definition cells_props :: "ustring list \<Rightarrow> props \<Rightarrow> props" where
  "cells_props cells ps =
     description_cell cells (priority_cell cells (story_cell cells (epic_cell cells ps)))"

definition table_props :: "ustring \<Rightarrow> props \<Rightarrow> props" where
  "table_props row ps = (if includes_ch row 124 then cells_props (row_cells row) ps else ps)"

text \<open>The dependency list, from the \<^verbatim>\<open>depends\<close> property.\<close>

definition depends_of :: "props \<Rightarrow> ustring list" where
  "depends_of ps =
     (case pget ps (str ''depends'') of
        None \<Rightarrow> []
      | Some depAttr \<Rightarrow>
          if depAttr = [] then []
          else filter (\<lambda>i. i \<noteq> [])
                 (map (\<lambda>d. toLowerCase (trim (replace_first re_leadCaret [] d)))
                      (split_runs is_depSep depAttr)))"

text \<open>Checked state and status, from the glyph tests on the first line.\<close>

definition glyph_checked :: "ustring \<Rightarrow> bool" where
  "glyph_checked l = test re_done l"

definition glyph_status :: "ustring \<Rightarrow> status" where
  "glyph_status l =
     (if test re_done l then Done
      else if test re_inProgress l then InProgress
      else if test re_onHold l then OnHold
      else NotStarted)"

definition no_text :: ustring where
  "no_text = str ''(no text)''"

text \<open>\<^verbatim>\<open>makeTaskKey\<close> and \<^verbatim>\<open>Map.set\<close>\<close>

definition makeTaskKey :: "ustring \<Rightarrow> ustring \<Rightarrow> ustring" where
  "makeTaskKey filePath i = toLowerCase filePath @ str ''::'' @ toLowerCase i"

subsection \<open>The list-item walk\<close>

text \<open>The emoji dates of the block, written after the \<^verbatim>\<open>key::\<close> pass and the table
  cells.\<close>

definition emoji_step :: "ustring \<times> (nat \<times> ustring) list \<Rightarrow> props \<Rightarrow> props" where
  "emoji_step m ps =
     (case (map_of (snd m) 1, map_of (snd m) 2) of
        (Some icon, Some date) \<Rightarrow>
          if icon = icon_soon \<or> icon = icon_hourglass \<or> icon = icon_departure
            then pset (str ''start'') (trim date) ps
          else if icon = icon_calendar then pset (str ''due'') (trim date) ps
          else if icon = icon_check then pset (str ''done'') (trim date) ps
          else ps
      | _ \<Rightarrow> ps)"

definition emoji_props :: "ustring \<Rightarrow> props \<Rightarrow> props" where
  "emoji_props block ps = fold emoji_step (match_all re_emoji None block) ps"

definition attribute_props :: "(ustring \<times> ustring) list option \<Rightarrow> props \<Rightarrow> props" where
  "attribute_props attrs ps =
     (case attrs of
        None \<Rightarrow> ps
      | Some as \<Rightarrow> fold (\<lambda>(k, v) ps. pset (toLowerCase k) v ps) as ps)"

text \<open>\<^verbatim>\<open>fileLines.slice(startIdx, endIdx + 1).join("\n")\<close>, its no-break spaces replaced,
  then \<^verbatim>\<open>/\s+\n/g\<close> replaced by a line feed.\<close>

definition re_spaceNl :: re where
  "re_spaceNl = seq [Plus is_space, lit 10]"

definition raw_block :: "ustring list \<Rightarrow> nat \<Rightarrow> nat \<Rightarrow> ustring" where
  "raw_block fileLines startIdx endIdx =
     replace_all re_spaceNl [10] None
       (nbsp_to_space (join 10 (take (endIdx + 1 - startIdx) (drop startIdx fileLines))))"

definition item_props :: "(ustring \<times> ustring) list option \<Rightarrow> ustring \<Rightarrow> ustring \<Rightarrow> props" where
  "item_props attrs rowText rawBlock =
     emoji_props rawBlock (table_props rowText (inline_props rowText (attribute_props attrs [])))"

definition item_text :: "ustring \<Rightarrow> ustring" where
  "item_text rawBlock =
     trim (replace_all re_propWord [] None
            (replace_first re_leadBox []
               (replace_all re_leadPipe [] None rawBlock)))"

definition or_no_text :: "ustring \<Rightarrow> ustring" where
  "or_no_text stripped = (if stripped = [] then no_text else stripped)"

text \<open>
  One list item: \<open>None\<close> when it is no task (\<^verbatim>\<open>!item.task && !tableTaskMatch\<close>).
  \<open>assemble_item\<close> is the task, from the first line of the item (\<^verbatim>\<open>firstLineRaw\<close>,
  \<^verbatim>\<open>firstLine\<close> and \<^verbatim>\<open>rowText\<close> are all \<^verbatim>\<open>fileLines[startIdx] ?? ""\<close>), the block and
  the properties collected from them.
\<close>

definition assemble_item :: "ustring \<Rightarrow> ListItem \<Rightarrow> ustring \<Rightarrow> ustring \<Rightarrow> props \<Rightarrow> TaskItem" where
  "assemble_item path item firstLineRaw rawBlock ps = \<lparr>
     t_id = (case li_id item of
               Some i \<Rightarrow> i
             | None \<Rightarrow> path @ str ''-'' @ decimal (li_start item)),
     t_file = path,
     t_line = li_start item,
     t_text = or_no_text (item_text rawBlock),
     t_props = ps,
     t_checked = (li_task item = Some True \<or> glyph_checked firstLineRaw),
     t_depends = depends_of ps,
     t_status = glyph_status firstLineRaw \<rparr>"

definition block_task :: "ustring \<Rightarrow> ListItem \<Rightarrow> ustring \<Rightarrow> ustring \<Rightarrow> TaskItem option" where
  "block_task path item firstLineRaw rawBlock =
     (if li_task item = None \<and> \<not> test re_tableTask firstLineRaw then None
      else Some (assemble_item path item firstLineRaw rawBlock
                   (item_props (li_attributes item) firstLineRaw rawBlock)))"

definition item_task :: "ustring \<Rightarrow> ustring list \<Rightarrow> ListItem \<Rightarrow> TaskItem option" where
  "item_task path fileLines item =
     block_task path item (line_at fileLines (li_start item))
       (raw_block fileLines (li_start item)
          (case li_end item of None \<Rightarrow> li_start item | Some e \<Rightarrow> e))"

text \<open>The state of one file's scan: the file's task array, and the two global
  collections that the walks write to.\<close>

type_synonym scan = "TaskItem list \<times> (ustring \<times> TaskItem) list \<times> Milestone list"

definition push_task :: "ustring \<Rightarrow> TaskItem \<Rightarrow> scan \<Rightarrow> scan" where
  "push_task path task sc =
     (case sc of (ts, tmap, ms) \<Rightarrow>
        (ts @ [task], pset (makeTaskKey path (t_id task)) task tmap, ms))"

definition item_step :: "ustring \<Rightarrow> ustring list \<Rightarrow> ListItem \<Rightarrow> scan \<Rightarrow> scan" where
  "item_step path fileLines item sc =
     (case item_task path fileLines item of
        None \<Rightarrow> sc
      | Some task \<Rightarrow> push_task path task sc)"

subsection \<open>The line walk\<close>

definition row_props :: "ustring \<Rightarrow> props" where
  "row_props l = table_props l (inline_props l [])"

definition row_text :: "ustring \<Rightarrow> ustring" where
  "row_text l =
     trim (replace_all re_propCell [] None
            (replace_first re_restCells []
               (replace_first re_rowToBox [] l)))"

text \<open>The id of a row: the caret suffix, else the first cell, else the path and the line;
  lower-cased at the end.\<close>

definition row_id :: "ustring \<Rightarrow> nat \<Rightarrow> ustring \<Rightarrow> ustring" where
  "row_id path idx l =
     toLowerCase
       (case capture re_caretId 1 l of
          Some i \<Rightarrow> i
        | None \<Rightarrow>
            (case capture re_idCell 1 l of
               Some i \<Rightarrow> i
             | None \<Rightarrow> path @ str ''-row-'' @ decimal idx))"

definition assemble_row :: "ustring \<Rightarrow> nat \<Rightarrow> ustring \<Rightarrow> props \<Rightarrow> TaskItem" where
  "assemble_row path idx l ps = \<lparr>
     t_id = row_id path idx l,
     t_file = path,
     t_line = idx,
     t_text = or_no_text (row_text l),
     t_props = ps,
     t_checked = glyph_checked l,
     t_depends = depends_of ps,
     t_status = glyph_status l \<rparr>"

definition row_task :: "ustring \<Rightarrow> nat \<Rightarrow> ustring \<Rightarrow> TaskItem" where
  "row_task path idx l = assemble_row path idx l (row_props l)"

text \<open>
  The milestone scan. Every line that starts with a pipe and holds the words Date and
  Title opens a table; its rows are the lines after it, up to the first line that does
  not start with a pipe. A row with at least 4 pieces and a date as piece 3 is a
  milestone.
\<close>

definition cell_at :: "ustring list \<Rightarrow> nat \<Rightarrow> ustring" where
  "cell_at cells i = (if i < length cells then cells ! i else [])"

definition milestone_cells :: "ustring \<Rightarrow> ustring list \<Rightarrow> Milestone list" where
  "milestone_cells path cells =
     (if length cells < 4 then []
      else if \<not> test dateRe (cell_at cells 3) then []
      else [\<lparr> m_id = cell_at cells 1, m_title = cell_at cells 2, m_date = cell_at cells 3,
              m_desc = cell_at cells 4, m_file = path \<rparr>])"

definition milestone_row :: "ustring \<Rightarrow> ustring \<Rightarrow> Milestone list" where
  "milestone_row path row = milestone_cells path (map trim (split_on 124 row))"

definition is_milestone_header :: "ustring \<Rightarrow> bool" where
  "is_milestone_header l \<longleftrightarrow> test re_pipeStart l \<and> test re_wordDate l \<and> test re_wordTitle l"

fun milestone_scan :: "ustring \<Rightarrow> ustring list \<Rightarrow> Milestone list" where
  "milestone_scan path [] = []"
| "milestone_scan path (l # ls) =
     (if is_milestone_header l
      then concat (map (milestone_row path) (takeWhile (test re_pipeStart) ls))
      else [])
     @ milestone_scan path ls"

text \<open>
  One line of the line walk. A line that is no table-task row, or whose index a task of
  this file already has, is left. Otherwise the row's task is pushed, and then, inside
  the same callback, the milestone scan runs over the whole file and appends to the
  global list.
\<close>

definition row_step :: "ustring \<Rightarrow> ustring list \<Rightarrow> nat \<times> ustring \<Rightarrow> scan \<Rightarrow> scan" where
  "row_step path fileLines il sc =
     (case sc of (ts, tmap, ms) \<Rightarrow>
        if \<not> test re_tableRow (snd il) then sc
        else if find (\<lambda>t. t_line t = fst il) ts \<noteq> None then sc
        else (case push_task path (row_task path (fst il) (snd il)) sc of
                (ts', tmap', ms') \<Rightarrow> (ts', tmap', ms' @ milestone_scan path fileLines)))"

subsection \<open>One file, and the whole vault\<close>

definition is_project :: "PmSettings \<Rightarrow> VFile \<Rightarrow> bool" where
  "is_project st f =
     (case vf_meta f of
        None \<Rightarrow> False
      | Some meta \<Rightarrow>
          (case frontmatter meta of
             None \<Rightarrow> False
           | Some fm \<Rightarrow>
               pget fm (if projectFlagProperty st = [] then str ''project''
                        else projectFlagProperty st) = Some True))"

definition scan_lines ::
  "ustring \<Rightarrow> ustring list \<Rightarrow> ListItem list \<Rightarrow> (ustring \<times> TaskItem) list \<times> Milestone list \<Rightarrow> scan" where
  "scan_lines path fileLines items gl =
     fold (row_step path fileLines) (List.enumerate 0 fileLines)
          (fold (item_step path fileLines) items ([], fst gl, snd gl))"

definition scan_file :: "VFile \<Rightarrow> (ustring \<times> TaskItem) list \<times> Milestone list \<Rightarrow> scan" where
  "scan_file f gl =
     scan_lines (vf_path f) (split_on 10 (vf_text f))
       (case vf_meta f of
          None \<Rightarrow> []
        | Some meta \<Rightarrow> (case listItems meta of None \<Rightarrow> [] | Some is \<Rightarrow> is))
       gl"

text \<open>The nearest open due date: the least \<^verbatim>\<open>dueProperty\<close> value among the tasks that
  are not checked.\<close>

definition due_step :: "ustring \<Rightarrow> TaskItem \<Rightarrow> ustring option \<Rightarrow> ustring option" where
  "due_step dueKey t nd =
     (case pget (t_props t) dueKey of
        None \<Rightarrow> nd
      | Some due \<Rightarrow>
          if due \<noteq> [] \<and> \<not> t_checked t \<and> (case nd of None \<Rightarrow> True | Some n \<Rightarrow> n = [] \<or> str_less due n)
          then Some due else nd)"

definition project_entry :: "PmSettings \<Rightarrow> ustring \<Rightarrow> TaskItem list \<Rightarrow> ProjectEntry" where
  "project_entry st path ts = \<lparr>
     pe_file = path,
     pe_tasks = ts,
     percentComplete =
       (if length ts = 0 then 1
        else of_nat (length (filter t_checked ts)) / of_nat (length ts)),
     nextDue = fold (due_step (dueProperty st)) ts None \<rparr>"

type_synonym index = "(ustring \<times> ProjectEntry) list \<times> (ustring \<times> TaskItem) list \<times> Milestone list"

definition file_step :: "PmSettings \<Rightarrow> VFile \<Rightarrow> index \<Rightarrow> index" where
  "file_step st f ix =
     (case ix of (ps, tmap, ms) \<Rightarrow>
        if \<not> is_project st f then ix
        else (case scan_file f (tmap, ms) of
                (ts, tmap', ms') \<Rightarrow>
                  (pset (vf_path f) (project_entry st (vf_path f) ts) ps, tmap', ms')))"

text \<open>\<^verbatim>\<open>reindex()\<close>: the three collections are emptied and rebuilt from the vault, then
  the listeners are notified.\<close>

definition reindex :: "Vault \<Rightarrow> ProjectCache \<Rightarrow> ProjectCache" where
  "reindex v c =
     (case fold (file_step (settings v)) (files v) ([], [], []) of
        (ps, tmap, ms) \<Rightarrow>
          \<lparr> projects = ps, tasks = tmap, milestones = ms,
            notifications = Suc (notifications c) \<rparr>)"

text \<open>\<^verbatim>\<open>getTask(taskId)\<close>: the entry of that very key, else the first entry, in insertion
  order, whose key ends with \<^verbatim>\<open>::\<close> and the lower-cased id.\<close>

definition getTask :: "ProjectCache \<Rightarrow> ustring \<Rightarrow> TaskItem option" where
  "getTask c taskId =
     (case pget (tasks c) taskId of
        Some t \<Rightarrow> Some t
      | None \<Rightarrow>
          (case find (\<lambda>(key, t). endsWith key (str ''::'' @ toLowerCase taskId)) (tasks c) of
             None \<Rightarrow> None
           | Some (key, t) \<Rightarrow> Some t))"

section \<open>The mutation gateway\<close>

text \<open>
  The changes of \<^verbatim>\<open>updateTask\<close>: \<open>ch_checked\<close> is there when \<^verbatim>\<open>changes.checked\<close> is a
  boolean, \<open>ch_text\<close> when \<^verbatim>\<open>changes.text\<close> is defined, and \<open>ch_props\<close> are the other own
  keys in their order, each with its value (\<open>None\<close> for \<^verbatim>\<open>undefined\<close>).
\<close>

record Changes =
  ch_checked :: "bool option"
  ch_text :: "ustring option"
  ch_props :: "(ustring \<times> ustring option) list"

datatype error = ReadFailed | TypeError

text \<open>\<^verbatim>\<open>vault.read(file)\<close> fails when the vault has no such file any more;
  \<^verbatim>\<open>vault.modify(file, text)\<close> replaces the text of the file. The host's metadata of the
  file is the host's to refresh.\<close>

definition vault_read :: "Vault \<Rightarrow> ustring \<Rightarrow> ustring option" where
  "vault_read v path = map_option vf_text (find (\<lambda>f. vf_path f = path) (files v))"

definition vault_modify :: "Vault \<Rightarrow> ustring \<Rightarrow> ustring \<Rightarrow> Vault" where
  "vault_modify v path txt =
     v\<lparr>files := map (\<lambda>f. if vf_path f = path then f\<lparr>vf_text := txt\<rparr> else f) (files v)\<rparr>"

text \<open>
  A JavaScript array of lines: an index beyond the end reads \<^verbatim>\<open>undefined\<close> (\<open>None\<close>),
  a write beyond the end extends the array with holes, and \<^verbatim>\<open>join\<close> prints a hole or
  \<^verbatim>\<open>undefined\<close> as the empty string.
\<close>

definition js_get :: "'a option list \<Rightarrow> nat \<Rightarrow> 'a option" where
  "js_get xs i = (if i < length xs then xs ! i else None)"

definition js_set :: "'a option list \<Rightarrow> nat \<Rightarrow> 'a option \<Rightarrow> 'a option list" where
  "js_set xs i v =
     (if i < length xs then xs[i := v] else xs @ replicate (i - length xs) None @ [v])"

definition join_lines :: "ustring option list \<Rightarrow> ustring" where
  "join_lines xs = join 10 (map (\<lambda>x. case x of None \<Rightarrow> [] | Some l \<Rightarrow> l) xs)"

text \<open>\<^verbatim>\<open>/^\s*-\s*\[[ xX]\]/\<close>, the checkbox that a checked change rewrites, and
  \<^verbatim>\<open>/\](.*?)(\^\w+)?$/\<close>, the text segment.\<close>

definition re_checkbox :: re where
  "re_checkbox = seq [Bol, Star is_space, lit 45, Star is_space, lit 91,
     Atom (\<lambda>c. c = 32 \<or> c = 120 \<or> c = 88), lit 93]"

definition re_textSeg :: re where
  "re_textSeg = seq [lit 93, Grp 1 (LazyStar is_dot), Opt (Grp 2 (Seq (lit 94) (Plus is_word))), Eol]"

text \<open>The primary line. \<^verbatim>\<open>line.replace\<close> on a line that the file does not have throws a
  TypeError.\<close>

definition edit_checked :: "bool option \<Rightarrow> ustring option \<Rightarrow> error + ustring option" where
  "edit_checked chk line =
     (case chk of
        None \<Rightarrow> Inr line
      | Some b \<Rightarrow>
          (case line of
             None \<Rightarrow> Inl TypeError
           | Some l \<Rightarrow>
               Inr (Some (replace_first re_checkbox
                            (str ''- ['' @ (if b then str ''x'' else str '' '') @ str '']'') l))))"

definition edit_text :: "ustring \<Rightarrow> ustring option \<Rightarrow> ustring option \<Rightarrow> error + ustring option" where
  "edit_text taskId txt line =
     (case txt of
        None \<Rightarrow> Inr line
      | Some t \<Rightarrow>
          (case line of
             None \<Rightarrow> Inl TypeError
           | Some l \<Rightarrow>
               Inr (Some (replace_first re_textSeg (str ''] '' @ t @ str '' '' @ taskId) l))))"

text \<open>
  The attribute line is the line after the primary line. The pattern of a key is built
  from the key's text, \<^verbatim>\<open>new RegExp(`${k}::\\s*[^\\s]+`)\<close>; the model takes the key
  literally, as it is for a key of letters, digits, hyphens and underscores.
\<close>

definition re_attr :: "ustring \<Rightarrow> re" where
  "re_attr k = seq (map lit k @ [lit 58, lit 58, Star is_space, Plus (\<lambda>c. \<not> is_space c)])"

definition attr_step :: "ustring \<times> ustring option \<Rightarrow> ustring \<Rightarrow> ustring" where
  "attr_step kv attrLine =
     (case snd kv of
        None \<Rightarrow> attrLine
      | Some val \<Rightarrow>
          if test (re_attr (fst kv)) attrLine
          then replace_first (re_attr (fst kv)) (fst kv @ str '':: '' @ val) attrLine
          else attrLine @ str ''  '' @ fst kv @ str '':: '' @ val)"

definition edit_attrs ::
  "(ustring \<times> ustring option) list \<Rightarrow> nat \<Rightarrow> ustring option list \<Rightarrow> ustring option list" where
  "edit_attrs kvs nextLineIdx lines =
     (if kvs = [] then lines
      else js_set lines nextLineIdx
             (Some (fold attr_step kvs
                      (case js_get lines nextLineIdx of None \<Rightarrow> [] | Some l \<Rightarrow> l))))"

text \<open>The end of an update: the vault as written, and the index rebuilt from it.\<close>

definition persist :: "ProjectCache \<Rightarrow> Vault \<Rightarrow> Vault \<times> ProjectCache" where
  "persist c v' = (v', reindex v' c)"

text \<open>
  \<^verbatim>\<open>updateTask(taskId, changes)\<close>. The task is looked up by the very key. The source also
  writes the changes into the indexed task object; the \<^verbatim>\<open>reindex()\<close> at the end empties
  the index and rebuilds it from the vault, so that the result holds none of these writes.
\<close>

definition updateTask ::
  "Vault \<Rightarrow> ProjectCache \<Rightarrow> ustring \<Rightarrow> Changes \<Rightarrow> error + (Vault \<times> ProjectCache)" where
  "updateTask v c taskId changes =
     (case pget (tasks c) taskId of
        None \<Rightarrow> Inr (v, c)
      | Some task \<Rightarrow>
          (case vault_read v (t_file task) of
             None \<Rightarrow> Inl ReadFailed
           | Some fileText \<Rightarrow>
               (case edit_checked (ch_checked changes)
                       (js_get (map Some (split_on 10 fileText)) (t_line task)) of
                  Inl e \<Rightarrow> Inl e
                | Inr line1 \<Rightarrow>
                    (case edit_text (t_id task) (ch_text changes) line1 of
                       Inl e \<Rightarrow> Inl e
                     | Inr line2 \<Rightarrow>
                         Inr (persist c
                                (vault_modify v (t_file task)
                                   (join_lines
                                      (js_set (edit_attrs (ch_props changes) (t_line task + 1)
                                                 (map Some (split_on 10 fileText)))
                                              (t_line task) line2))))))))"

section \<open>Properties of the index\<close>

subsection \<open>A vault to run the scanner on\<close>

definition default_settings :: PmSettings where
  "default_settings = \<lparr> projectFlagProperty = str ''project'', statusProperty = str ''status'',
     dueProperty = str ''due'' \<rparr>"

definition empty_cache :: ProjectCache where
  "empty_cache = \<lparr> projects = [], tasks = [], milestones = [], notifications = 0 \<rparr>"

text \<open>A vault of one project note, given by its path, its lines and the list items the
  host reports for it.\<close>

definition note_vault :: "ustring \<Rightarrow> ustring list \<Rightarrow> ListItem list option \<Rightarrow> Vault" where
  "note_vault path ls items = \<lparr>
     files = [\<lparr> vf_path = path, vf_text = join 10 ls,
                vf_meta = Some \<lparr> frontmatter = Some [(str ''project'', True)],
                                  listItems = items \<rparr> \<rparr>],
     settings = default_settings \<rparr>"

text \<open>A table of one task row, and the task that the line walk builds from it.\<close>

definition row_vault :: Vault where
  "row_vault = note_vault (str ''P.md'') [str ''| E-1 | - [ ] A |''] None"

definition row_entry :: TaskItem where
  "row_entry = \<lparr> t_id = str ''e-1'', t_file = str ''P.md'', t_line = 0, t_text = str ''A'',
     t_props = [], t_checked = False, t_depends = [], t_status = NotStarted \<rparr>"

subsection \<open>The checkbox of a line\<close>

text \<open>
  The three glyph tests are one pattern, \<^verbatim>\<open>-\s*\[g\]\<close>, over three classes of glyphs.
  \<open>checkbox ws g\<close> is a text that it matches: a hyphen, white space \<open>ws\<close>, and the glyph
  \<open>g\<close> in brackets. \<open>mark_here cls s\<close> says that \<open>s\<close> starts with a checkbox whose glyph
  is of the class. \<open>status_of_glyph\<close> is the mapping that the comment of \<^verbatim>\<open>TaskItem.status\<close>
  lists.
\<close>

definition re_glyph :: "(nat \<Rightarrow> bool) \<Rightarrow> re" where
  "re_glyph cls = seq [lit 45, Star is_space, lit 91, Atom cls, lit 93]"

fun mark_here :: "(nat \<Rightarrow> bool) \<Rightarrow> ustring \<Rightarrow> bool" where
  "mark_here cls [] = False"
| "mark_here cls (c # s) =
     (c = 45 \<and> (case dropWhile is_space s of
                   a # g # b # rest \<Rightarrow> a = 91 \<and> cls g \<and> b = 93
                 | _ \<Rightarrow> False))"

definition checkbox :: "ustring \<Rightarrow> nat \<Rightarrow> ustring" where
  "checkbox ws g = str ''-'' @ ws @ str ''['' @ [g] @ str '']''"



text \<open>A table row with a \<^verbatim>\<open>description::\<close> annotation in its third cell.\<close>

definition described_row :: ustring where
  "described_row = str ''| S-1 | - [ ] T | description:: real |''"

text \<open>
  The checklist block of the round trip, and the list item as the host reports it for
  such a block: one unchecked item of lines 0 to 2, with no block id (the block has no
  anchor) and no attributes. \<open>api_line\<close> is the same task with its due date on the first
  line.
\<close>

definition api_block :: "ustring list" where
  "api_block = [str ''- [ ] E-1 Build API'', str ''  due:: 2025-08-01'', str ''  assignee:: Ann'']"

definition plain_item :: ListItem where
  "plain_item = \<lparr> li_task = Some False, li_start = 0, li_end = Some 2, li_attributes = None,
     li_id = None \<rparr>"

definition api_line :: "ustring list" where
  "api_line = [str ''- [ ] E-1 Build API due:: 2025-08-01'']"

text \<open>A milestone table of one row, the milestone of that row, and a task table of two
  rows.\<close>

definition launch :: Milestone where
  "launch = \<lparr> m_id = str ''M-1'', m_title = str ''Launch'', m_date = str ''2025-09-01'',
     m_desc = str ''go'', m_file = str ''P.md'' \<rparr>"

definition milestone_table :: "ustring list" where
  "milestone_table = [str ''| ID | Title | Date | Note |'', str ''| M-1 | Launch | 2025-09-01 | go |'']"

definition task_rows :: "ustring list" where
  "task_rows = [str ''| E-1 | - [ ] A |'', str ''| E-2 | - [x] B |'']"

text \<open>An unchecked list item of line 0 with no block id, as the host reports a plain
  checklist line.\<close>

definition bare_item :: ListItem where
  "bare_item = \<lparr> li_task = Some False, li_start = 0, li_end = Some 0, li_attributes = None,
     li_id = None \<rparr>"

text \<open>A table row with a \<^verbatim>\<open>due::\<close> annotation in one cell and a calendar emoji date in
  the next.\<close>

definition dated_row :: ustring where
  "dated_row = str ''| E-1 | - [ ] A | due:: 2025-01-01 | '' @ icon_calendar @ str '' 2025-02-02 |''"

text \<open>
  A task table of two rows with due dates, the same table with the due date of the
  second row rewritten, the change of the due date, the tasks indexed for such rows,
  and the due dates of an index.
\<close>

definition due_rows :: "ustring list" where
  "due_rows = [str ''| E-1 | - [ ] A | due:: 2025-01-01 |'', str ''| E-2 | - [ ] B | due:: 2025-02-01 |'']"

definition due_rows_after :: "ustring list" where
  "due_rows_after = [str ''| E-1 | - [ ] A | due:: 2025-01-01 |'', str ''| E-2 | - [ ] B | due:: 2025-03-03 |'']"

definition due_change :: Changes where
  "due_change = \<lparr> ch_checked = None, ch_text = None, ch_props = [(str ''due'', Some (str ''2025-03-03''))] \<rparr>"

definition row_due :: "nat \<Rightarrow> ustring \<Rightarrow> ustring \<Rightarrow> ustring \<Rightarrow> TaskItem" where
  "row_due idx i txt due = \<lparr> t_id = i, t_file = str ''P.md'', t_line = idx, t_text = txt,
     t_props = [(str ''due'', due), (str ''description'', str ''due:: '' @ due)],
     t_checked = False, t_depends = [], t_status = NotStarted \<rparr>"

definition dues :: "ProjectCache \<Rightarrow> (ustring \<times> ustring option) list" where
  "dues c = map (\<lambda>kt. (fst kt, pget (t_props (snd kt)) (str ''due''))) (tasks c)"

text \<open>The block after the due date of its second line is rewritten, and the task that
  is indexed for the block when the host reports no id and no attributes.\<close>

definition api_block_after :: "ustring list" where
  "api_block_after = [str ''- [ ] E-1 Build API'', str ''  due:: 2025-03-03'', str ''  assignee:: Ann'']"

definition plain_entry :: TaskItem where
  "plain_entry = \<lparr> t_id = str ''P.md-0'', t_file = str ''P.md'', t_line = 0,
     t_text = str ''E-1 Build API'', t_props = [], t_checked = False, t_depends = [],
     t_status = NotStarted \<rparr>"

text \<open>The dates that the emoji pass finds after a calendar glyph: of one match, and of
  a block, in the order of the matches.\<close>

definition calendar_date :: "ustring \<times> (nat \<times> ustring) list \<Rightarrow> ustring list" where
  "calendar_date m =
     (case (map_of (snd m) 1, map_of (snd m) 2) of
        (Some icon, Some date) \<Rightarrow> if icon = icon_calendar then [trim date] else []
      | _ \<Rightarrow> [])"

definition calendar_dates :: "ustring \<Rightarrow> ustring list" where
  "calendar_dates block = concat (map calendar_date (match_all re_emoji None block))"

text \<open>The definitions that running the scanner on a given vault unfolds.\<close>

lemmas string_defs = str_def is_space_def is_digit_def is_upper_def is_lower_def is_word_def
  is_idch_def is_dot_def trim_def toLowerCase_def lower_ch_def endsWith_def includes_ch_def
  decimal.simps

lemmas regex_defs = seq_def lit_def Plus_def Opt_def match_here_def test_def capture_def
  replace_first_def word_before_def word_after_def

lemmas pattern_defs = nbsp_to_space_def re_tableTask_def re_tableRow_def re_inline_def re_epic_def
  re_story_def re_isoDate_def dateRe_def icon_soon_def icon_hourglass_def icon_calendar_def
  icon_check_def icon_departure_def re_emoji_def re_done_def re_inProgress_def re_onHold_def
  re_leadPipe_def re_leadBox_def re_propWord_def re_rowToBox_def re_restCells_def re_propCell_def
  re_caretId_def re_idCell_def ci_def re_pipeStart_def re_wordDate_def re_wordTitle_def
  re_leadCaret_def is_depSep_def re_spaceNl_def re_checkbox_def re_textSeg_def re_attr_def

lemmas scanner_defs = pget_def line_at_def inline_step_def inline_props_def shift_empty_def
  pop_empty_def row_cells_def epic_cell_def story_cell_def priority_words_def priority_cell_def
  description_cand_def description_cell_def cells_props_def table_props_def depends_of_def glyph_checked_def
  glyph_status_def no_text_def makeTaskKey_def emoji_step_def emoji_props_def attribute_props_def
  raw_block_def item_props_def item_text_def or_no_text_def assemble_item_def block_task_def item_task_def push_task_def
  item_step_def row_props_def row_text_def row_id_def assemble_row_def row_task_def cell_at_def milestone_cells_def milestone_row_def
  is_milestone_header_def row_step_def is_project_def scan_lines_def scan_file_def due_step_def
  project_entry_def file_step_def reindex_def getTask_def default_settings_def empty_cache_def
  note_vault_def

lemmas gateway_defs = vault_read_def vault_modify_def js_get_def js_set_def join_lines_def
  edit_checked_def edit_text_def attr_step_def edit_attrs_def persist_def updateTask_def

lemmas eval_defs = string_defs regex_defs pattern_defs scanner_defs gateway_defs

subsection \<open>Rebuilding twice\<close>

text \<open>
  C8. A second \<^verbatim>\<open>reindex()\<close> over the same vault, right after a first one, leaves the
  projects, the task map and the milestone list exactly as the first one built them:
  same entries, same properties, same order.
\<close>

theorem reindex_twice:
  "projects (reindex v (reindex v c)) = projects (reindex v c)
   \<and> tasks (reindex v (reindex v c)) = tasks (reindex v c)
   \<and> milestones (reindex v (reindex v c)) = milestones (reindex v c)"
  by (simp add: reindex_def split: prod.splits)

subsection \<open>Updating a task that the index does not have\<close>

text \<open>The index of the one-row table.\<close>

lemma row_vault_tasks: "tasks (reindex row_vault c) = [(str ''p.md::e-1'', row_entry)]"
  by (simp add: eval_defs row_vault_def row_entry_def)

text \<open>
  C9. When the task map has no entry under the given id, \<^verbatim>\<open>updateTask\<close> returns without
  an error and leaves the vault and the whole index as they were, whatever the changes.
\<close>

theorem updateTask_absent:
  "pget (tasks c) taskId = None \<Longrightarrow> updateTask v c taskId changes = Inr (v, c)"
  by (simp add: updateTask_def)

theorem updateTask_absent_witness:
  "pget (tasks (reindex row_vault empty_cache)) (str ''p.md::e-9'') = None
   \<and> updateTask row_vault (reindex row_vault empty_cache) (str ''p.md::e-9'') due_change
      = Inr (row_vault, reindex row_vault empty_cache)"
proof -
  have absent: "pget (tasks (reindex row_vault empty_cache)) (str ''p.md::e-9'') = None"
    unfolding row_vault_tasks by (simp add: pget_def str_def)
  show ?thesis
    using absent updateTask_absent [OF absent] by simp
qed

subsection \<open>Facts about the matcher\<close>

text \<open>A greedy run of a class, followed by a piece that can only start with one code
  unit outside the class: the match, if any, has that code unit right after the leading
  run.\<close>

lemma star_greedy_first:
  assumes k: "\<And>prev' s'. k (prev', s', caps) \<noteq> None \<Longrightarrow> \<exists>t. s' = x # t"
    and x: "\<not> p x"
    and m: "star_greedy p k prev caps s \<noteq> None"
  shows "\<exists>t. dropWhile p s = x # t"
  using m
proof (induction s arbitrary: prev)
  case Nil
  then show ?case using k by fastforce
next
  case (Cons c s)
  show ?case
  proof (cases "p c")
    case True
    show ?thesis
    proof (cases "star_greedy p k (Some c) caps s")
      case None
      with Cons.prems True have "k (prev, c # s, caps) \<noteq> None" by simp
      then have "c = x" using k by fastforce
      with True x show ?thesis by simp
    next
      case (Some r)
      then have "\<exists>t. dropWhile p s = x # t" using Cons.IH [of "Some c"] by auto
      with True show ?thesis by simp
    qed
  next
    case False
    with Cons.prems have "k (prev, c # s, caps) \<noteq> None" by simp
    then have "c = x" using k by fastforce
    with False show ?thesis by simp
  qed
qed

lemma search_bol_later: "search (Seq Bol r) (Some c) s = None"
  by (induction s arbitrary: c) (simp_all add: match_here_def)

lemma test_bol: "test (Seq Bol r) s \<longleftrightarrow> match_here (Seq Bol r) None s \<noteq> None"
  by (cases s) (auto simp: test_def search_bol_later split: option.splits)

lemma lead_space_then:
  assumes "\<not> is_space x"
    and "test (Seq Bol (Seq (Star is_space) (Seq (lit x) r))) s"
  shows "\<exists>t. dropWhile is_space s = x # t"
proof -
  from assms(2) have "star_greedy is_space (rmatch (Seq (lit x) r) Some) None [] s \<noteq> None"
    by (simp add: test_bol match_here_def)
  moreover have "\<And>prev' s'. rmatch (Seq (lit x) r) Some (prev', s', []) \<noteq> None \<Longrightarrow> \<exists>t. s' = x # t"
    by (auto simp: lit_def split: list.splits if_splits)
  ultimately show ?thesis
    using star_greedy_first [of "rmatch (Seq (lit x) r) Some" "[]" x is_space None s] assms(1) by blast
qed

lemma pipe_row_no_checkbox:
  assumes "test re_pipeStart l"
  shows "\<not> test re_checkbox l"
proof
  assume "test re_checkbox l"
  then have "\<exists>t. dropWhile is_space l = 45 # t"
    using lead_space_then [of 45] by (simp add: re_checkbox_def seq_def is_space_def)
  moreover from assms have "\<exists>t. dropWhile is_space l = 124 # t"
    using lead_space_then [of 124 Eps] by (simp add: re_pipeStart_def seq_def is_space_def)
  ultimately show False by auto
qed

lemma replace_first_no_match: "\<not> test r s \<Longrightarrow> replace_first r rep s = s"
  by (cases "search r None s") (simp_all add: test_def replace_first_def)

lemma join_Cons_head: "join sep ((c # a) # ps) = c # join sep (a # ps)"
  by (cases ps) simp_all

lemma split_on_not_Nil: "split_on sep s \<noteq> []"
  by (cases s) (auto split: list.splits)

lemma join_Nil_head: "ps \<noteq> [] \<Longrightarrow> join sep ([] # ps) = sep # join sep ps"
  by (cases ps) simp_all

lemma join_split_on: "join sep (split_on sep s) = s"
proof (induction s)
  case Nil
  then show ?case by simp
next
  case (Cons c s)
  then show ?case
    by (cases "split_on sep s") (auto simp: join_Cons_head join_Nil_head split_on_not_Nil simp del: join.simps)
qed


subsection \<open>A checked change on a table row\<close>

lemma find_map_modify:
  "map_option vf_text (find (\<lambda>f. vf_path f = q) (map (\<lambda>f. if vf_path f = p then f\<lparr>vf_text := t\<rparr> else f) fs))
   = (if q = p then map_option (\<lambda>_. t) (find (\<lambda>f. vf_path f = p) fs)
      else map_option vf_text (find (\<lambda>f. vf_path f = q) fs))"
  by (induction fs) auto

lemma vault_read_modify:
  "vault_read (vault_modify v p t) q
   = (if q = p then map_option (\<lambda>_. t) (vault_read v p) else vault_read v q)"
  by (simp add: vault_read_def vault_modify_def find_map_modify option.map_comp comp_def)

lemma vault_read_modify_same:
  "vault_read v p = Some t \<Longrightarrow> vault_read (vault_modify v p t) q = vault_read v q"
  by (simp add: vault_read_modify)

lemma join_lines_Some: "join_lines (map Some ls) = join 10 ls"
  by (simp add: join_lines_def comp_def)

lemma js_set_same: "i < length ls \<Longrightarrow> js_set (map Some ls) i (Some (ls ! i)) = map Some ls"
  by (simp add: js_set_def map_update [symmetric])

text \<open>
  C10. The primary line of an indexed task starts, after optional white space, with a
  pipe. Then \<^verbatim>\<open>updateTask\<close> with a change of the checked state alone succeeds and writes
  back the text it read: the checkbox pattern is anchored at a leading \<^verbatim>\<open>- [ ]\<close>,
  \<^verbatim>\<open>- [x]\<close> or \<^verbatim>\<open>- [X]\<close>, which a table row never has, so that the row's checkbox is not
  rewritten, whatever its glyph. Every file of the vault reads as before.
\<close>

theorem updateTask_checked_table_row:
  assumes "pget (tasks c) taskId = Some task"
    and "vault_read v (t_file task) = Some fileText"
    and "t_line task < length (split_on 10 fileText)"
    and "test re_pipeStart (split_on 10 fileText ! t_line task)"
  shows "\<exists>v'. updateTask v c taskId \<lparr> ch_checked = Some b, ch_text = None, ch_props = [] \<rparr>
                 = Inr (v', reindex v' c)
              \<and> (\<forall>p. vault_read v' p = vault_read v p)"
proof -
  let ?ls = "split_on 10 fileText"
  have line: "js_get (map Some ?ls) (t_line task) = Some (?ls ! t_line task)"
    using assms(3) by (simp add: js_get_def)
  have kept: "replace_first re_checkbox rep (?ls ! t_line task) = ?ls ! t_line task" for rep
    using assms(4) by (simp add: pipe_row_no_checkbox replace_first_no_match)
  have written: "join_lines (js_set (map Some ?ls) (t_line task) (Some (?ls ! t_line task))) = fileText"
    using assms(3) by (simp add: js_set_same join_lines_Some join_split_on)
  have "updateTask v c taskId \<lparr> ch_checked = Some b, ch_text = None, ch_props = [] \<rparr>
        = Inr (persist c (vault_modify v (t_file task) fileText))"
    using assms(1,2) line kept written
    by (simp add: updateTask_def edit_checked_def edit_text_def edit_attrs_def)
  then show ?thesis
    using assms(2) by (simp add: persist_def vault_read_modify_same)
qed

theorem updateTask_checked_table_row_witness:
  "pget (tasks (reindex row_vault empty_cache)) (str ''p.md::e-1'') = Some row_entry
   \<and> vault_read row_vault (t_file row_entry) = Some (str ''| E-1 | - [ ] A |'')
   \<and> t_line row_entry < length (split_on 10 (str ''| E-1 | - [ ] A |''))
   \<and> test re_pipeStart (split_on 10 (str ''| E-1 | - [ ] A |'') ! t_line row_entry)
   \<and> (\<exists>v'. updateTask row_vault (reindex row_vault empty_cache) (str ''p.md::e-1'')
                \<lparr> ch_checked = Some True, ch_text = None, ch_props = [] \<rparr>
              = Inr (v', reindex v' (reindex row_vault empty_cache))
            \<and> (\<forall>p. vault_read v' p = vault_read row_vault p))"
proof -
  have h1: "pget (tasks (reindex row_vault empty_cache)) (str ''p.md::e-1'') = Some row_entry"
    unfolding row_vault_tasks by (simp add: pget_def)
  have h2: "vault_read row_vault (t_file row_entry) = Some (str ''| E-1 | - [ ] A |'')"
    by (simp add: eval_defs row_vault_def row_entry_def)
  have h3: "t_line row_entry < length (split_on 10 (str ''| E-1 | - [ ] A |''))"
    by (simp add: eval_defs row_entry_def)
  have h4: "test re_pipeStart (split_on 10 (str ''| E-1 | - [ ] A |'') ! t_line row_entry)"
    by (simp add: eval_defs row_entry_def)
  show ?thesis
    using h1 h2 h3 h4 updateTask_checked_table_row [OF h1 h2 h3 h4, of True] by blast
qed

subsection \<open>Where a glyph pattern matches\<close>

lemma star_greedy_iff:
  assumes k: "\<And>prev' s'. (k (prev', s', caps) = None) = (\<not> Q s')"
    and q: "\<And>s'. Q s' \<Longrightarrow> s' \<noteq> [] \<and> \<not> p (hd s')"
  shows "(star_greedy p k prev caps s = None) = (\<not> Q (dropWhile p s))"
proof (induction s arbitrary: prev)
  case Nil
  show ?case using k by simp
next
  case (Cons c s)
  show ?case
  proof (cases "p c")
    case True
    then have "\<not> Q (c # s)" using q by fastforce
    then have "k (prev, c # s, caps) = None" using k [of prev "c # s"] by simp
    with True Cons.IH [of "Some c"] show ?thesis
      by (cases "star_greedy p k (Some c) caps s") simp_all
  next
    case False
    then show ?thesis using k by simp
  qed
qed

lemma glyph_tail:
  "(rmatch (Seq (lit 91) (Seq (Atom cls) (Seq (lit 93) Eps))) Some (prev', s', []) = None)
   = (\<not> (case s' of a # g # b # rest \<Rightarrow> a = 91 \<and> cls g \<and> b = 93 | _ \<Rightarrow> False))"
  by (simp add: lit_def split: list.splits)

lemma glyph_tail_head:
  "(case s' of a # g # b # rest \<Rightarrow> a = 91 \<and> cls g \<and> b = 93 | _ \<Rightarrow> False)
   \<Longrightarrow> s' \<noteq> [] \<and> \<not> is_space (hd s')"
  by (auto simp: is_space_def split: list.splits)

lemma glyph_run:
  "(star_greedy is_space (rmatch (Seq (lit 91) (Seq (Atom cls) (Seq (lit 93) Eps))) Some) prev [] s = None)
   = (\<not> (case dropWhile is_space s of a # g # b # rest \<Rightarrow> a = 91 \<and> cls g \<and> b = 93 | _ \<Rightarrow> False))"
  by (rule star_greedy_iff) (fact glyph_tail, fact glyph_tail_head)

lemma glyph_here_Cons:
  "match_here (re_glyph cls) prev (c # s)
   = (if c = 45
      then star_greedy is_space (rmatch (Seq (lit 91) (Seq (Atom cls) (Seq (lit 93) Eps))) Some) (Some c) [] s
      else None)"
  by (simp add: re_glyph_def seq_def match_here_def lit_def)

lemma glyph_here: "(match_here (re_glyph cls) prev s = None) = (\<not> mark_here cls s)"
proof (cases s)
  case Nil
  then show ?thesis by (simp add: re_glyph_def seq_def lit_def match_here_def)
next
  case (Cons c s1)
  show ?thesis
    unfolding Cons glyph_here_Cons
    by (simp only: glyph_run mark_here.simps split: if_splits) simp
qed







lemma not_space_bracket: "\<not> is_space 91" "\<not> is_space 93" "\<not> is_space 45"
  by (simp_all add: is_space_def)





subsection \<open>The glyph of the checkbox and the status\<close>









subsection \<open>The description of a table row\<close>

lemma pget_pset: "pget (pset k v ps) k' = (if k' = k then Some v else pget ps k')"
  by (induction ps) (auto simp: pget_def)

lemma description_key:
  "str ''description'' \<noteq> str ''epic''" "str ''description'' \<noteq> str ''story''"
  "str ''description'' \<noteq> str ''priority''" "str ''description'' \<noteq> str ''start''"
  "str ''description'' \<noteq> str ''due''" "str ''description'' \<noteq> str ''done''"
  by (simp_all add: str_def)

lemma cells_props_description:
  "pget (cells_props cells ps) (str ''description'')
   = (case description_cand cells of
        Some cand \<Rightarrow> Some cand
      | None \<Rightarrow> pget ps (str ''description''))"
  by (simp add: cells_props_def description_cell_def priority_cell_def story_cell_def
        epic_cell_def pget_pset description_key split: option.splits)

lemma emoji_step_description:
  "pget (emoji_step m ps) (str ''description'') = pget ps (str ''description'')"
  by (simp add: emoji_step_def pget_pset description_key split: option.splits)

lemma emoji_props_description:
  "pget (emoji_props block ps) (str ''description'') = pget ps (str ''description'')"
proof -
  have "pget (fold emoji_step ms ps) (str ''description'') = pget ps (str ''description'')" for ms
    by (induction ms arbitrary: ps) (simp_all add: emoji_step_description)
  then show ?thesis by (simp add: emoji_props_def)
qed

text \<open>
  C2, as the code has it. On a line with a pipe, the description of the assembled task
  is the right-most cell of index 2 or more that is neither empty nor a date, when the
  row has such a cell, whatever \<^verbatim>\<open>description::\<close> annotation the row carries: the cell
  pass runs after the annotation pass and writes over it. The annotation's value is the
  description only when the row has no such cell. This holds on both walks.
\<close>

theorem description_from_cells:
  assumes "includes_ch l 124"
  shows "pget (t_props (row_task path idx l)) (str ''description'')
           = (case description_cand (row_cells l) of
                Some cand \<Rightarrow> Some cand
              | None \<Rightarrow> pget (inline_props l []) (str ''description''))
       \<and> pget (item_props attrs l rawBlock) (str ''description'')
           = (case description_cand (row_cells l) of
                Some cand \<Rightarrow> Some cand
              | None \<Rightarrow> pget (inline_props l (attribute_props attrs [])) (str ''description''))"
  using assms
  by (simp add: row_task_def assemble_row_def row_props_def item_props_def table_props_def
        cells_props_description emoji_props_description)

theorem description_from_cells_witness:
  "includes_ch described_row 124
   \<and> description_cand (row_cells described_row) = Some (str ''description:: real'')
   \<and> pget (t_props (row_task (str ''P.md'') 0 described_row)) (str ''description'')
       = Some (str ''description:: real'')"
proof -
  have h: "includes_ch described_row 124"
    by (simp add: described_row_def includes_ch_def str_def)
  have c: "description_cand (row_cells described_row) = Some (str ''description:: real'')"
    by (simp add: eval_defs described_row_def)
  show ?thesis
    using h c description_from_cells [OF h, of "str ''P.md''" 0] by simp
qed

text \<open>
  C2 as stated fails: the row \<^verbatim>\<open>| S-1 | - [ ] T | description:: real |\<close> carries the
  annotation \<^verbatim>\<open>description:: real\<close>, and the task indexed for it has the whole cell,
  \<^verbatim>\<open>description:: real\<close>, as its description.
\<close>

theorem description_annotation_counterexample:
  "pget (inline_props described_row []) (str ''description'') = Some (str ''real'')
   \<and> map_option (\<lambda>t. pget (t_props t) (str ''description''))
        (getTask (reindex (note_vault (str ''P.md'') [described_row] None) empty_cache) (str ''s-1''))
       = Some (Some (str ''description:: real''))"
  by (simp add: eval_defs described_row_def)

subsection \<open>The round trip of a checklist block\<close>

lemma plain_item_tasks:
  "tasks (reindex (note_vault (str ''P.md'') api_block (Some [plain_item])) c)
   = [(str ''p.md::p.md-0'', plain_entry)]"
  by (simp add: eval_defs api_block_def plain_item_def plain_entry_def)

text \<open>
  C3 does not hold of the code. The \<^verbatim>\<open>key::\<close> pass of the list-item walk reads the first
  line of the block only, although its comment says that annotations on continuation
  lines count; and the walk takes the id from the host's list item or from the path and
  the line, not from the text. For the checklist block \<^verbatim>\<open>- [ ] E-1 Build API\<close>,
  \<^verbatim>\<open>  due:: 2025-08-01\<close>, \<^verbatim>\<open>  assignee:: Ann\<close>, reported by the host as one unchecked list
  item of lines 0 to 2, the index holds one task, under the key \<^verbatim>\<open>p.md::p.md-0\<close>, with
  no due date and no assignee, and the lookup by \<^verbatim>\<open>E-1\<close> finds nothing. Status and
  checked state of that task are as the claim says.
\<close>

theorem roundtrip_block_unread:
  "tasks (reindex (note_vault (str ''P.md'') api_block (Some [plain_item])) c)
     = [(str ''p.md::p.md-0'', plain_entry)]
   \<and> getTask (reindex (note_vault (str ''P.md'') api_block (Some [plain_item])) c) (str ''E-1'')
     = None
   \<and> pget (t_props plain_entry) (str ''due'') = None
   \<and> pget (t_props plain_entry) (str ''assignee'') = None
   \<and> t_status plain_entry = NotStarted
   \<and> t_checked plain_entry = False"
  unfolding getTask_def plain_item_tasks
  by (simp add: pget_def endsWith_def toLowerCase_def lower_ch_def is_upper_def str_def
        plain_entry_def)

text \<open>The same annotation on the first line of the item is read.\<close>

lemma first_line_annotation_read:
  "map (\<lambda>kt. pget (t_props (snd kt)) (str ''due''))
     (tasks (reindex (note_vault (str ''P.md'') api_line (Some [bare_item])) c))
   = [Some (str ''2025-08-01'')]"
  by (simp add: eval_defs api_line_def bare_item_def)

text \<open>
  In general the lines of a block after the first reach the properties through the
  emoji pass alone: a property other than start, due and done is what the host's
  attributes and the first line give, whatever the block holds.
\<close>

lemma emoji_step_other:
  assumes "k \<noteq> str ''start''" and "k \<noteq> str ''due''" and "k \<noteq> str ''done''"
  shows "pget (emoji_step m ps) k = pget ps k"
  using assms by (simp add: emoji_step_def pget_pset split: option.splits)

lemma emoji_props_other:
  assumes "k \<noteq> str ''start''" and "k \<noteq> str ''due''" and "k \<noteq> str ''done''"
  shows "pget (emoji_props block ps) k = pget ps k"
proof -
  have "pget (fold emoji_step ms ps) k = pget ps k" for ms
    by (induction ms arbitrary: ps) (simp_all add: emoji_step_other [OF assms])
  then show ?thesis by (simp add: emoji_props_def)
qed

lemma continuation_lines_unread:
  assumes "k \<noteq> str ''start''" and "k \<noteq> str ''due''" and "k \<noteq> str ''done''"
  shows "pget (item_props attrs rowText rawBlock) k
         = pget (table_props rowText (inline_props rowText (attribute_props attrs []))) k"
  by (simp add: item_props_def emoji_props_other [OF assms])

subsection \<open>The milestone scan\<close>

text \<open>
  C1 does not hold of the code: the milestone scan stands inside the callback of the
  line walk, after the row's task is pushed, so that it runs once for every table-task
  row that this walk turns into a task. A note with a milestone table and no such row
  yields no milestone; a note with the same table and two such rows yields the
  milestone of the table twice.
\<close>

theorem milestones_per_task_row:
  "milestones (reindex (note_vault (str ''P.md'') milestone_table None) c) = []
   \<and> milestones (reindex (note_vault (str ''P.md'') (task_rows @ milestone_table) None) c)
       = [launch, launch]"
  by (simp add: eval_defs milestone_table_def task_rows_def launch_def)

text \<open>In general the scan of a file appends the milestones of the file once for every
  task that the line walk adds, and the list-item walk appends none.\<close>

lemma item_step_milestones: "snd (snd (item_step path ls item sc)) = snd (snd sc)"
  by (cases sc) (simp add: item_step_def push_task_def split: option.splits)

lemma items_milestones: "snd (snd (fold (item_step path ls) items sc)) = snd (snd sc)"
  by (induction items arbitrary: sc) (simp_all add: item_step_milestones)

lemma row_step_milestones:
  "length (fst sc) \<le> length (fst (row_step path ls il sc))
   \<and> snd (snd (row_step path ls il sc))
       = snd (snd sc) @ concat (replicate (length (fst (row_step path ls il sc)) - length (fst sc))
                                  (milestone_scan path ls))"
  by (cases sc) (simp add: row_step_def push_task_def)

lemma rows_milestones:
  "length (fst sc) \<le> length (fst (fold (row_step path ls) ils sc))
   \<and> snd (snd (fold (row_step path ls) ils sc))
       = snd (snd sc) @ concat (replicate (length (fst (fold (row_step path ls) ils sc)) - length (fst sc))
                                  (milestone_scan path ls))"
proof (induction ils arbitrary: sc)
  case Nil
  show ?case by simp
next
  case (Cons il ils)
  let ?sc1 = "row_step path ls il sc"
  have a: "length (fst sc) \<le> length (fst ?sc1)"
    and b: "snd (snd ?sc1) = snd (snd sc) @ concat (replicate (length (fst ?sc1) - length (fst sc)) (milestone_scan path ls))"
    using row_step_milestones [of sc path ls il] by simp_all
  have c: "length (fst ?sc1) \<le> length (fst (fold (row_step path ls) ils ?sc1))"
    and d: "snd (snd (fold (row_step path ls) ils ?sc1))
       = snd (snd ?sc1) @ concat (replicate (length (fst (fold (row_step path ls) ils ?sc1)) - length (fst ?sc1)) (milestone_scan path ls))"
    using Cons.IH [of ?sc1] by simp_all
  have "replicate (length (fst ?sc1) - length (fst sc)) (milestone_scan path ls)
        @ replicate (length (fst (fold (row_step path ls) ils ?sc1)) - length (fst ?sc1)) (milestone_scan path ls)
        = replicate (length (fst (fold (row_step path ls) ils ?sc1)) - length (fst sc)) (milestone_scan path ls)"
    using a c by (simp add: replicate_add [symmetric])
  then show ?case using a c b d
    by (simp del: replicate_add) (metis concat_append)
qed

lemma line_walk_milestones:
  "snd (snd (scan_lines path ls items (tmap, ms)))
   = ms @ concat (replicate
                    (length (fst (scan_lines path ls items (tmap, ms)))
                     - length (fst (fold (item_step path ls) items ([], tmap, ms))))
                    (milestone_scan path ls))"
  using rows_milestones [of "fold (item_step path ls) items ([], tmap, ms)" path ls "List.enumerate 0 ls"]
  by (simp add: scan_lines_def items_milestones)

subsection \<open>The case of an id\<close>

text \<open>
  C4 does not hold of the code on the list-item walk: the id of a list item is the
  host's id or the path and the line, as they are. For the note \<^verbatim>\<open>Plan.md\<close> with one
  checklist line and no block id the stored id is \<^verbatim>\<open>Plan.md-0\<close>, which is not lower
  case; only the key of the task map is.
\<close>

theorem item_id_keeps_case:
  "map (\<lambda>kt. (fst kt, t_id (snd kt)))
     (tasks (reindex (note_vault (str ''Plan.md'') [str ''- [ ] A''] (Some [bare_item])) c))
   = [(str ''plan.md::plan.md-0'', str ''Plan.md-0'')]
   \<and> toLowerCase (str ''Plan.md-0'') \<noteq> str ''Plan.md-0''"
  by (simp add: eval_defs bare_item_def)

text \<open>The line walk does lower-case the id of every task it builds.\<close>

lemma toLowerCase_twice: "toLowerCase (toLowerCase s) = toLowerCase s"
  by (induction s) (auto simp: toLowerCase_def lower_ch_def is_upper_def)

lemma row_id_lower: "toLowerCase (t_id (row_task path idx l)) = t_id (row_task path idx l)"
  by (simp add: row_task_def assemble_row_def row_id_def toLowerCase_twice)

subsection \<open>Emoji dates\<close>

text \<open>
  C6 does not hold of the code on the line walk, which has no emoji pass: for the row
  \<^verbatim>\<open>| E-1 | - [ ] A | due:: 2025-01-01 | (calendar) 2025-02-02 |\<close>, found by the line walk,
  the due date is that of the annotation. The list-item walk, given the same line as a
  list item, has the emoji date.
\<close>

theorem emoji_date_line_walk:
  "map (\<lambda>kt. pget (t_props (snd kt)) (str ''due''))
     (tasks (reindex (note_vault (str ''P.md'') [dated_row] None) c))
   = [Some (str ''2025-01-01'')]
   \<and> map (\<lambda>kt. pget (t_props (snd kt)) (str ''due''))
     (tasks (reindex (note_vault (str ''P.md'') [dated_row] (Some [bare_item])) c))
   = [Some (str ''2025-02-02'')]"
  by (simp add: eval_defs dated_row_def bare_item_def)

text \<open>On the list-item walk the due date is that of the last calendar token of the
  block, whenever the block has one, whatever the passes before it wrote.\<close>

lemma icons_differ:
  "icon_calendar \<noteq> icon_soon" "icon_calendar \<noteq> icon_hourglass" "icon_calendar \<noteq> icon_departure"
  "icon_calendar \<noteq> icon_check"
  by (simp_all add: icon_calendar_def icon_soon_def icon_hourglass_def icon_departure_def icon_check_def)

lemma due_key: "str ''due'' \<noteq> str ''start''" "str ''due'' \<noteq> str ''done''"
  by (simp_all add: str_def)

lemma emoji_step_due:
  "pget (emoji_step m ps) (str ''due'')
   = (case calendar_date m of [] \<Rightarrow> pget ps (str ''due'') | d # ds \<Rightarrow> Some d)"
  by (auto simp: emoji_step_def calendar_date_def pget_pset icons_differ due_key
        split: option.splits)

lemma calendar_date_short: "calendar_date m = [] \<or> (\<exists>d. calendar_date m = [d])"
  by (simp add: calendar_date_def split: option.splits)

lemma last_date:
  assumes "c = [] \<or> (\<exists>d. c = [d])"
  shows "(case r of [] \<Rightarrow> (case c of [] \<Rightarrow> x | d # ds \<Rightarrow> Some d) | d # ds \<Rightarrow> Some (last (d # ds)))
         = (case c @ r of [] \<Rightarrow> x | d # ds \<Rightarrow> Some (last (d # ds)))"
  using assms by (cases r) auto

lemma emoji_fold_due:
  "pget (fold emoji_step ms ps) (str ''due'')
   = (case concat (map calendar_date ms) of
        [] \<Rightarrow> pget ps (str ''due'')
      | d # ds \<Rightarrow> Some (last (d # ds)))"
proof (induction ms arbitrary: ps)
  case Nil
  show ?case by simp
next
  case (Cons m ms)
  let ?r = "concat (map calendar_date ms)"
  have ih: "pget (fold emoji_step ms (emoji_step m ps)) (str ''due'')
     = (case ?r of
          [] \<Rightarrow> pget (emoji_step m ps) (str ''due'')
        | d # ds \<Rightarrow> Some (last (d # ds)))"
    by (rule Cons.IH)
  have step: "fold emoji_step (m # ms) ps = fold emoji_step ms (emoji_step m ps)" by simp
  have cc: "concat (map calendar_date (m # ms)) = calendar_date m @ ?r" by simp
  show ?case
    unfolding step cc ih emoji_step_due
    by (rule last_date) (rule calendar_date_short)
qed

lemma emoji_due_wins:
  "pget (item_props attrs rowText rawBlock) (str ''due'')
   = (case calendar_dates rawBlock of
        [] \<Rightarrow> pget (table_props rowText (inline_props rowText (attribute_props attrs []))) (str ''due'')
      | d # ds \<Rightarrow> Some (last (d # ds)))"
  by (simp add: item_props_def emoji_props_def calendar_dates_def emoji_fold_due)

subsection \<open>Updating the due date of a table row\<close>

lemma due_rows_tasks:
  "tasks (reindex (note_vault (str ''P.md'') due_rows None) c)
   = [(str ''p.md::e-1'', row_due 0 (str ''e-1'') (str ''A'') (str ''2025-01-01'')),
      (str ''p.md::e-2'', row_due 1 (str ''e-2'') (str ''B'') (str ''2025-02-01''))]"
  by (simp add: eval_defs due_rows_def row_due_def)

lemma due_rows_after_tasks:
  "tasks (reindex (note_vault (str ''P.md'') due_rows_after None) c)
   = [(str ''p.md::e-1'', row_due 0 (str ''e-1'') (str ''A'') (str ''2025-01-01'')),
      (str ''p.md::e-2'', row_due 1 (str ''e-2'') (str ''B'') (str ''2025-03-03''))]"
  by (simp add: eval_defs due_rows_after_def row_due_def)

lemma due_rows_update:
  assumes "tasks c1 = [(str ''p.md::e-1'', row_due 0 (str ''e-1'') (str ''A'') (str ''2025-01-01'')),
                       (str ''p.md::e-2'', row_due 1 (str ''e-2'') (str ''B'') (str ''2025-02-01''))]"
  shows "updateTask (note_vault (str ''P.md'') due_rows None) c1 (str ''p.md::e-1'') due_change
         = Inr (note_vault (str ''P.md'') due_rows_after None,
                reindex (note_vault (str ''P.md'') due_rows_after None) c1)"
  using assms
  by (simp add: string_defs regex_defs re_attr_def gateway_defs pget_def note_vault_def
        default_settings_def due_rows_def due_rows_after_def due_change_def row_due_def)

text \<open>
  C5 does not hold of the code for a task of a table row. The attribute line of an
  update is the line after the primary line, which for a table row is the next row. In
  a table of two rows, \<^verbatim>\<open>updateTask\<close> of the first row's task with a new due date
  rewrites the \<^verbatim>\<open>due::\<close> annotation of the second row: after the rebuild the first task
  has its old due date, and the second task has the new one.
\<close>

theorem update_due_hits_next_row:
  "dues (reindex (note_vault (str ''P.md'') due_rows None) c)
     = [(str ''p.md::e-1'', Some (str ''2025-01-01'')), (str ''p.md::e-2'', Some (str ''2025-02-01''))]
   \<and> updateTask (note_vault (str ''P.md'') due_rows None)
        (reindex (note_vault (str ''P.md'') due_rows None) c) (str ''p.md::e-1'') due_change
     = Inr (note_vault (str ''P.md'') due_rows_after None,
            reindex (note_vault (str ''P.md'') due_rows_after None)
              (reindex (note_vault (str ''P.md'') due_rows None) c))
   \<and> dues (reindex (note_vault (str ''P.md'') due_rows_after None)
              (reindex (note_vault (str ''P.md'') due_rows None) c))
     = [(str ''p.md::e-1'', Some (str ''2025-01-01'')), (str ''p.md::e-2'', Some (str ''2025-03-03''))]
   \<and> map_option (\<lambda>t. pget (t_props t) (str ''due''))
        (getTask (reindex (note_vault (str ''P.md'') due_rows_after None)
                    (reindex (note_vault (str ''P.md'') due_rows None) c)) (str ''p.md::e-1''))
     = Some (Some (str ''2025-01-01''))"
proof -
  let ?v = "note_vault (str ''P.md'') due_rows None"
  let ?v' = "note_vault (str ''P.md'') due_rows_after None"
  have before: "dues (reindex ?v c)
     = [(str ''p.md::e-1'', Some (str ''2025-01-01'')), (str ''p.md::e-2'', Some (str ''2025-02-01''))]"
    unfolding dues_def due_rows_tasks by (simp add: row_due_def pget_def str_def)
  have upd: "updateTask ?v (reindex ?v c) (str ''p.md::e-1'') due_change
     = Inr (?v', reindex ?v' (reindex ?v c))"
    by (rule due_rows_update) (rule due_rows_tasks)
  have after: "dues (reindex ?v' (reindex ?v c))
     = [(str ''p.md::e-1'', Some (str ''2025-01-01'')), (str ''p.md::e-2'', Some (str ''2025-03-03''))]"
    unfolding dues_def due_rows_after_tasks by (simp add: row_due_def pget_def str_def)
  have got: "map_option (\<lambda>t. pget (t_props t) (str ''due''))
        (getTask (reindex ?v' (reindex ?v c)) (str ''p.md::e-1''))
     = Some (Some (str ''2025-01-01''))"
    unfolding getTask_def due_rows_after_tasks by (simp add: row_due_def pget_def str_def)
  from before upd after got show ?thesis by blast
qed

text \<open>
  For a checklist block the attribute line is a line of the block, and the update
  rewrites it. With a host that reports no attributes for the list item, the rebuilt
  index still has no due date for the task: the \<^verbatim>\<open>key::\<close> pass of the list-item walk
  reads the first line of the block only.
\<close>

lemma plain_item_after_tasks:
  "tasks (reindex (note_vault (str ''P.md'') api_block_after (Some [plain_item])) c)
   = [(str ''p.md::p.md-0'', plain_entry)]"
  by (simp add: eval_defs api_block_after_def plain_item_def plain_entry_def)

lemma plain_item_update:
  assumes "tasks c1 = [(str ''p.md::p.md-0'', plain_entry)]"
  shows "updateTask (note_vault (str ''P.md'') api_block (Some [plain_item])) c1 (str ''p.md::p.md-0'') due_change
         = Inr (note_vault (str ''P.md'') api_block_after (Some [plain_item]),
                reindex (note_vault (str ''P.md'') api_block_after (Some [plain_item])) c1)"
  using assms
  by (simp add: string_defs regex_defs re_attr_def gateway_defs pget_def note_vault_def
        default_settings_def api_block_def api_block_after_def due_change_def plain_entry_def)

lemma update_due_checklist_block:
  "updateTask (note_vault (str ''P.md'') api_block (Some [plain_item]))
     (reindex (note_vault (str ''P.md'') api_block (Some [plain_item])) c) (str ''p.md::p.md-0'') due_change
   = Inr (note_vault (str ''P.md'') api_block_after (Some [plain_item]),
          reindex (note_vault (str ''P.md'') api_block_after (Some [plain_item]))
            (reindex (note_vault (str ''P.md'') api_block (Some [plain_item])) c))
   \<and> map_option (\<lambda>t. pget (t_props t) (str ''due''))
        (getTask (reindex (note_vault (str ''P.md'') api_block_after (Some [plain_item]))
                    (reindex (note_vault (str ''P.md'') api_block (Some [plain_item])) c))
           (str ''p.md::p.md-0''))
     = Some None"
proof -
  have "map_option (\<lambda>t. pget (t_props t) (str ''due''))
        (getTask (reindex (note_vault (str ''P.md'') api_block_after (Some [plain_item]))
                    (reindex (note_vault (str ''P.md'') api_block (Some [plain_item])) c))
           (str ''p.md::p.md-0''))
     = Some None"
    unfolding getTask_def plain_item_after_tasks by (simp add: plain_entry_def pget_def str_def)
  moreover note plain_item_update [OF plain_item_tasks, of c]
  ultimately show ?thesis by blast
qed

subsection \<open>Which lines a checked change rewrites\<close>

text \<open>The checkbox pattern of \<^verbatim>\<open>updateTask\<close> matches exactly the lines that, after their
  leading white space, start with a checkbox whose glyph is a space, \<^verbatim>\<open>x\<close> or \<^verbatim>\<open>X\<close>. A
  checklist line with any other glyph, such as \<^verbatim>\<open>[/]\<close> or \<^verbatim>\<open>[-]\<close>, is left as it is.\<close>

lemma mark_here_head: "mark_here cls s \<Longrightarrow> s \<noteq> [] \<and> \<not> is_space (hd s)"
  by (cases s) (simp_all add: not_space_bracket)

lemma checkbox_here:
  "(match_here re_checkbox None s = None)
   = (\<not> mark_here (\<lambda>c. c = 32 \<or> c = 120 \<or> c = 88) (dropWhile is_space s))"
proof -
  let ?cls = "\<lambda>c::nat. c = 32 \<or> c = 120 \<or> c = 88"
  let ?k = "rmatch (re_glyph ?cls) Some :: mstate \<Rightarrow> mstate option"
  have k: "(?k (prev', s', []) = None) = (\<not> mark_here ?cls s')" for prev' s'
    using glyph_here [of ?cls prev' s'] by (simp add: match_here_def)
  have "(star_greedy is_space ?k None [] s = None) = (\<not> mark_here ?cls (dropWhile is_space s))"
    by (rule star_greedy_iff) (fact k, fact mark_here_head)
  moreover have "match_here re_checkbox None s = star_greedy is_space ?k None [] s"
    by (simp add: match_here_def re_checkbox_def re_glyph_def seq_def)
  ultimately show ?thesis by simp
qed

lemma test_checkbox_iff:
  "test re_checkbox s = mark_here (\<lambda>c. c = 32 \<or> c = 120 \<or> c = 88) (dropWhile is_space s)"
proof -
  have "test re_checkbox s = (match_here re_checkbox None s \<noteq> None)"
    using test_bol [of _ s] by (simp add: re_checkbox_def seq_def)
  then show ?thesis using checkbox_here [of s] by simp
qed

lemma other_glyph_kept:
  assumes "list_all is_space ws" and "list_all is_space ws'"
    and "g \<noteq> 32" and "g \<noteq> 120" and "g \<noteq> 88"
  shows "replace_first re_checkbox rep (ws @ checkbox ws' g @ post) = ws @ checkbox ws' g @ post"
proof -
  have "dropWhile is_space (ws @ checkbox ws' g @ post) = 45 # ws' @ 91 # g # 93 # post"
    using assms(1) by (simp add: list_all_iff checkbox_def str_def not_space_bracket)
  moreover have "dropWhile is_space (ws' @ 91 # g # 93 # post) = 91 # g # 93 # post"
    using assms(2) by (simp add: list_all_iff not_space_bracket)
  ultimately have "\<not> test re_checkbox (ws @ checkbox ws' g @ post)"
    using assms(3-5) by (simp add: test_checkbox_iff)
  then show ?thesis by (rule replace_first_no_match)
qed

subsection \<open>An id that no lookup finds\<close>

text \<open>An id that \<^verbatim>\<open>getTask\<close> does not find is not a key of the task map either.\<close>

lemma updateTask_not_found:
  "getTask c taskId = None \<Longrightarrow> updateTask v c taskId changes = Inr (v, c)"
  by (simp add: updateTask_def getTask_def split: option.splits)

text \<open>An id that only the suffix lookup of \<^verbatim>\<open>getTask\<close> finds is no key of the task map:
  \<^verbatim>\<open>updateTask\<close> with the bare id of an indexed task changes nothing.\<close>

lemma updateTask_bare_id:
  "getTask (reindex row_vault c) (str ''e-1'') = Some row_entry
   \<and> updateTask row_vault (reindex row_vault c) (str ''e-1'') changes
      = Inr (row_vault, reindex row_vault c)"
  unfolding getTask_def updateTask_def row_vault_tasks
  by (simp add: pget_def endsWith_def toLowerCase_def lower_ch_def is_upper_def str_def)

end
